theory Spec2Isabelle
  imports Main "HOL-Library.Word"
begin

unbundle bit_operations_syntax

section \<open>Platform constants\<close>

text \<open>
  The handlers of \<^verbatim>\<open>socket_functions.c\<close> and \<^verbatim>\<open>handle_watcher.c\<close> use
  status codes, errno values and signal bits that are declared in the platform headers
  (\<^verbatim>\<open>magenta/errors.h\<close>, \<^verbatim>\<open>errno.h\<close>, \<^verbatim>\<open>magenta/types.h\<close>,
  \<^verbatim>\<open>mxio/socket.h\<close>), outside the sources. They are C integers; the numerals below
  are the ones of those headers. The handlers only compare them for equality and
  test status codes against zero.
\<close>

type_synonym mx_status = int

definition NO_ERROR :: mx_status where "NO_ERROR = 0"
definition ERR_INTERNAL :: mx_status where "ERR_INTERNAL = - 1"
definition ERR_NOT_SUPPORTED :: mx_status where "ERR_NOT_SUPPORTED = - 2"
definition ERR_NO_RESOURCES :: mx_status where "ERR_NO_RESOURCES = - 3"
definition ERR_NO_MEMORY :: mx_status where "ERR_NO_MEMORY = - 4"
definition ERR_INVALID_ARGS :: mx_status where "ERR_INVALID_ARGS = - 10"
definition ERR_BAD_HANDLE :: mx_status where "ERR_BAD_HANDLE = - 11"
definition ERR_SHOULD_WAIT :: mx_status where "ERR_SHOULD_WAIT = - 22"
definition ERR_PEER_CLOSED :: mx_status where "ERR_PEER_CLOSED = - 24"
definition ERR_NOT_FOUND :: mx_status where "ERR_NOT_FOUND = - 25"
definition ERR_ALREADY_EXISTS :: mx_status where "ERR_ALREADY_EXISTS = - 26"
definition ERR_ACCESS_DENIED :: mx_status where "ERR_ACCESS_DENIED = - 30"
definition ERR_IO :: mx_status where "ERR_IO = - 40"

text \<open>The two private codes of \<^verbatim>\<open>socket_functions.c\<close> ("error codes for a special cases").\<close>

definition PENDING_NET :: mx_status where "PENDING_NET = - 99999"
definition PENDING_SOCKET :: mx_status where "PENDING_SOCKET = - 99998"

lemmas status_defs =
  NO_ERROR_def ERR_INTERNAL_def ERR_NOT_SUPPORTED_def ERR_NO_RESOURCES_def
  ERR_NO_MEMORY_def ERR_INVALID_ARGS_def ERR_BAD_HANDLE_def ERR_SHOULD_WAIT_def
  ERR_PEER_CLOSED_def ERR_NOT_FOUND_def ERR_ALREADY_EXISTS_def ERR_ACCESS_DENIED_def
  ERR_IO_def PENDING_NET_def PENDING_SOCKET_def

definition EIO :: int where "EIO = 5"
definition EBADF :: int where "EBADF = 9"
definition EWOULDBLOCK :: int where "EWOULDBLOCK = 11"
definition EAGAIN :: int where "EAGAIN = EWOULDBLOCK"
definition ENOMEM :: int where "ENOMEM = 12"
definition EACCES :: int where "EACCES = 13"
definition EINVAL :: int where "EINVAL = 22"
definition ERANGE :: int where "ERANGE = 34"
definition ENOBUFS :: int where "ENOBUFS = 105"
definition EINPROGRESS :: int where "EINPROGRESS = 115"

lemmas errno_defs =
  EIO_def EBADF_def EWOULDBLOCK_def EAGAIN_def ENOMEM_def EACCES_def EINVAL_def
  ERANGE_def ENOBUFS_def EINPROGRESS_def

section \<open>Mapping errno values to status codes\<close>

text \<open>
  \<^verbatim>\<open>errno_to_status\<close> is a \<^verbatim>\<open>switch\<close> over the errno value; its case labels are
  tried here in the order of the source.
\<close>

definition errno_to_status :: "int \<Rightarrow> mx_status" where
  "errno_to_status errno0 =
     (if errno0 = EACCES then ERR_ACCESS_DENIED
      else if errno0 = EBADF then ERR_BAD_HANDLE
      else if errno0 = EINPROGRESS then ERR_SHOULD_WAIT
      else if errno0 = EINVAL then ERR_INVALID_ARGS
      else if errno0 = EIO then ERR_IO
      else if errno0 = ENOBUFS then ERR_NO_RESOURCES
      else if errno0 = ENOMEM then ERR_NO_MEMORY
      else if errno0 = EWOULDBLOCK then ERR_SHOULD_WAIT
      else ERR_IO)"

section \<open>Parsing the socket path\<close>

text \<open>
  \<^verbatim>\<open>parse_socket_args\<close> calls \<^verbatim>\<open>strtol(ptr, &ptr, 10)\<close> three times. \<^verbatim>\<open>strtol\<close>
  belongs to the C library, not to the sources; it is modelled after ISO C (7.22.1.4) in the
  C locale: white space is skipped, one sign is optional, the longest run of decimal digits
  is converted, the end pointer is left behind the digits, and a value outside
  \<^verbatim>\<open>long\<close> is clamped with \<^verbatim>\<open>errno = ERANGE\<close>. When there is no digit the
  result is 0, the end pointer is the start pointer and \<^verbatim>\<open>errno\<close> becomes
  \<^verbatim>\<open>EINVAL\<close>, as the platform's C library (musl) does. \<^verbatim>\<open>long\<close> has 64 bits and
  \<^verbatim>\<open>int\<close> 32 on the platform.

  A C string is the list of its characters; reading at its end gives the terminator
  \<^verbatim>\<open>'\0'\<close> (\<open>peek\<close>). \<open>strtol nptr errno0\<close> returns the value, the end pointer (the
  rest of the string) and the new value of \<^verbatim>\<open>errno\<close>.
\<close>

definition isspace :: "char \<Rightarrow> bool" where
  "isspace c = (c = CHR '' '' \<or> c = CHR 0x09 \<or> c = CHR 0x0A \<or> c = CHR 0x0B \<or>
                c = CHR 0x0C \<or> c = CHR 0x0D)"

definition isdigit :: "char \<Rightarrow> bool" where
  "isdigit c = (48 \<le> (of_char c :: nat) \<and> (of_char c :: nat) \<le> 57)"

definition digits_value :: "string \<Rightarrow> nat" where
  "digits_value ds = foldl (\<lambda>a c. 10 * a + (of_char c - 48)) 0 ds"

definition LONG_MAX :: int where "LONG_MAX = 9223372036854775807"
definition LONG_MIN :: int where "LONG_MIN = - 9223372036854775808"

definition strtol :: "string \<Rightarrow> int \<Rightarrow> int \<times> string \<times> int" where
  "strtol nptr errno0 =
     (let s1 = dropWhile isspace nptr;
          neg = (s1 \<noteq> [] \<and> hd s1 = CHR ''-'');
          s2 = (if s1 \<noteq> [] \<and> (hd s1 = CHR ''-'' \<or> hd s1 = CHR ''+'') then tl s1 else s1);
          ds = takeWhile isdigit s2;
          endptr = dropWhile isdigit s2;
          v = (if neg then - int (digits_value ds) else int (digits_value ds))
      in if ds = [] then (0, nptr, EINVAL)
         else if v > LONG_MAX then (LONG_MAX, endptr, ERANGE)
         else if v < LONG_MIN then (LONG_MIN, endptr, ERANGE)
         else (v, endptr, errno0))"

text \<open>The assignment of a \<^verbatim>\<open>long\<close> to an \<^verbatim>\<open>int\<close> keeps the low 32 bits.\<close>

definition long_to_int :: "int \<Rightarrow> int" where
  "long_to_int v = (v + 2147483648) mod 4294967296 - 2147483648"

definition peek :: "string \<Rightarrow> char" where
  "peek p = (case p of [] \<Rightarrow> CHR 0x00 | c # _ \<Rightarrow> c)"

definition parse_socket_args :: "string \<Rightarrow> mx_status + (int \<times> int \<times> int)" where
  "parse_socket_args path =
     (case strtol path 0 of (domain, ptr1, errno1) \<Rightarrow>
      if errno1 \<noteq> 0 then Inl ERR_INVALID_ARGS
      else if peek ptr1 \<noteq> CHR ''/'' then Inl ERR_INVALID_ARGS
      else case strtol (tl ptr1) errno1 of (type, ptr2, errno2) \<Rightarrow>
      if errno2 \<noteq> 0 then Inl ERR_INVALID_ARGS
      else if peek ptr2 \<noteq> CHR ''/'' then Inl ERR_INVALID_ARGS
      else case strtol (tl ptr2) errno2 of (protocol, ptr3, errno3) \<Rightarrow>
      if errno3 \<noteq> 0 then Inl ERR_INVALID_ARGS
      else if peek ptr3 \<noteq> CHR 0x00 then Inl ERR_INVALID_ARGS
      else Inr (long_to_int domain, long_to_int type, long_to_int protocol))"

text \<open>
  The subject sequence that \<open>strtol\<close> converts without an error, and its value: white
  space, an optional sign and at least one digit, with a value that fits \<^verbatim>\<open>long\<close>.
  \<open>decimal\<close> is the strict form: digits only.
\<close>

definition c_long_literal :: "string \<Rightarrow> int \<Rightarrow> bool" where
  "c_long_literal a v \<longleftrightarrow>
     (\<exists>ws sg ds. a = ws @ sg @ ds \<and> list_all isspace ws \<and>
        (sg = [] \<or> sg = ''+'' \<or> sg = ''-'') \<and> ds \<noteq> [] \<and> list_all isdigit ds \<and>
        v = (if sg = ''-'' then - int (digits_value ds) else int (digits_value ds)) \<and>
        LONG_MIN \<le> v \<and> v \<le> LONG_MAX)"

definition decimal :: "string \<Rightarrow> bool" where
  "decimal ds \<longleftrightarrow> ds \<noteq> [] \<and> list_all isdigit ds"

definition INT_MAX :: int where "INT_MAX = 2147483647"

section \<open>The state of the server\<close>

text \<open>
  Handles are the kernel's 32-bit handle values, signals its 32-bit signal masks. The
  signal bits and \<^verbatim>\<open>MX_SOCKET_HALF_CLOSE\<close> are platform constants like the
  status codes above; \<^verbatim>\<open>SOCK_STREAM\<close> and \<^verbatim>\<open>SOCK_DGRAM\<close> are the values of
  \<^verbatim>\<open>sys/socket.h\<close> (the paths \<^verbatim>\<open>socket/2/1/0\<close> and \<^verbatim>\<open>socket/2/2/0\<close>).
\<close>

type_synonym mx_handle = nat

definition MX_HANDLE_INVALID :: mx_handle where "MX_HANDLE_INVALID = 0"

type_synonym mx_signals = "32 word"

definition MX_SIGNAL_NONE :: mx_signals where "MX_SIGNAL_NONE = 0"
definition MX_SOCKET_READABLE :: mx_signals where "MX_SOCKET_READABLE = 0x1"
definition MX_SOCKET_WRITABLE :: mx_signals where "MX_SOCKET_WRITABLE = 0x2"
definition MX_SOCKET_PEER_CLOSED :: mx_signals where "MX_SOCKET_PEER_CLOSED = 0x4"
definition MXSIO_SIGNAL_INCOMING :: mx_signals where "MXSIO_SIGNAL_INCOMING = 0x01000000"
definition MXSIO_SIGNAL_OUTGOING :: mx_signals where "MXSIO_SIGNAL_OUTGOING = 0x02000000"
definition MXSIO_SIGNAL_CONNECTED :: mx_signals where "MXSIO_SIGNAL_CONNECTED = 0x08000000"
definition MXSIO_SIGNAL_HALFCLOSED :: mx_signals where "MXSIO_SIGNAL_HALFCLOSED = 0x10000000"

lemmas signal_defs =
  MX_SIGNAL_NONE_def MX_SOCKET_READABLE_def MX_SOCKET_WRITABLE_def MX_SOCKET_PEER_CLOSED_def
  MXSIO_SIGNAL_INCOMING_def MXSIO_SIGNAL_OUTGOING_def MXSIO_SIGNAL_CONNECTED_def
  MXSIO_SIGNAL_HALFCLOSED_def

definition MX_SOCKET_HALF_CLOSE :: nat where "MX_SOCKET_HALF_CLOSE = 1"

definition SOCK_STREAM :: int where "SOCK_STREAM = 1"
definition SOCK_DGRAM :: int where "SOCK_DGRAM = 2"

definition RWBUF_SIZE :: int where "RWBUF_SIZE = 64 * 1024"

text \<open>
  The anonymous enum of \<^verbatim>\<open>socket_functions.c\<close>, and the fields of
  \<^verbatim>\<open>iostate_t\<close> that the handlers below read or write (the struct is declared in
  \<^verbatim>\<open>iostate.h\<close>). An IOState is addressed by a pointer: the state keeps a table from
  addresses to records, and a buffer of the pool is named by its address.
\<close>

datatype handle_type = HANDLE_TYPE_NONE | HANDLE_TYPE_STREAM | HANDLE_TYPE_DGRAM

record iostate =
  handle_type :: handle_type
  sockfd :: int
  data_h :: mx_handle
  rbuf :: "nat option"
  rlen :: int
  roff :: int
  wbuf :: "nat option"
  wlen :: int
  woff :: int
  last_errno :: int
  watching_signals :: mx_signals
  refcount :: int
  read_net_read :: int
  read_socket_write :: int

text \<open>
  The op-codes of the dispatch table \<^verbatim>\<open>do_funcs\<close>, the fields of an RIO message that
  \<^verbatim>\<open>do_open\<close> uses, and a request as \<^verbatim>\<open>request_pack\<close> builds it.
\<close>

datatype rio_op =
    MXRIO_OPEN | MXRIO_CONNECT | MXRIO_BIND | MXRIO_LISTEN | MXRIO_IOCTL | MXRIO_GETADDRINFO
  | MXRIO_GETSOCKNAME | MXRIO_GETPEERNAME | MXRIO_GETSOCKOPT | MXRIO_SETSOCKOPT
  | MXRIO_WRITE | MXRIO_READ | MXRIO_CLOSE | IO_HALFCLOSE | IO_SIGCONN_R | IO_SIGCONN_W

record mxrio_msg =
  datalen :: nat
  data :: string
  handle0 :: mx_handle

record request =
  rq_op :: rio_op
  rq_rh :: mx_handle
  rq_msg :: "mxrio_msg option"
  rq_ios :: nat

text \<open>
  Modelled from the spec: the event bits of \<^verbatim>\<open>events.h\<close>, which is not among the
  sources. Section 4.11: the multiplexer "owns a per-fd event mask (READ, WRITE, EXCEPT)".
  A mask is a set of events.
\<close>

datatype event = EVENT_READ | EVENT_WRITE | EVENT_EXCEPT

definition EVENT_ALL :: "event set" where
  "EVENT_ALL = {EVENT_READ, EVENT_WRITE, EVENT_EXCEPT}"

datatype wait_queue = WAIT_NET | WAIT_SOCKET

text \<open>
  Calls into the network backend and the kernel are recorded, in order, in a trace; the
  arguments are the ones the handler passes. \<open>Mx_channel_write h r hs\<close> is the reply
  \<^verbatim>\<open>{r, MXIO_PROTOCOL_SOCKET}\<close> written to \<open>h\<close> with the handles \<open>hs\<close>;
  \<open>Mx_socket_write h flags slice\<close> names the bytes by buffer, offset and length.
\<close>

datatype call =
    Net_socket int int int
  | Net_ioctl_FIONBIO int
  | Net_accept int
  | Net_close int
  | Net_getsockopt_SO_ERROR int
  | Net_read int nat int
  | Mx_channel_create
  | Mx_socket_create
  | Dispatcher_add mx_handle nat
  | Mx_handle_close mx_handle
  | Mx_object_signal_peer mx_handle mx_signals mx_signals
  | Mx_channel_write mx_handle mx_status "mx_handle list"
  | Mx_socket_write mx_handle nat "(nat \<times> int \<times> int) option"

text \<open>
  The process-wide state: the IOStates, the free list \<^verbatim>\<open>rwbuf_head\<close>, the event mask
  of every fd, the two wait queues (\<^verbatim>\<open>WAIT_NET\<close>, \<^verbatim>\<open>WAIT_SOCKET\<close>) as lists of
  (fd, request) in arrival order, the wait-set \<^verbatim>\<open>s_waitset\<close> from cookies to (handle,
  signals), and the trace. \<open>next_ios\<close> and \<open>next_buf\<close> are the addresses the allocator
  hands out next; allocation does not fail.
\<close>

record world =
  ios_tab :: "nat \<Rightarrow> iostate option"
  next_ios :: nat
  rwbuf_head :: "nat list"
  next_buf :: nat
  fd_events :: "int \<Rightarrow> event set"
  wait_net :: "(int \<times> request) list"
  wait_socket :: "(int \<times> request) list"
  waitset :: "nat \<Rightarrow> (mx_handle \<times> mx_signals) option"
  trace :: "call list"

text \<open>
  What the backend and the kernel answer during one run of a handler: each field is the
  result of the call it is named after. A backend call answers (return value, errno);
  \<^verbatim>\<open>getsockopt(SO_ERROR)\<close> also answers the option value. The two
  \<^verbatim>\<open>create\<close> results are those of the first and the second call in
  \<^verbatim>\<open>create_handles\<close>. \<open>half_close_r\<close> is the result of writing the half-close
  marker, \<open>socket_write_rs\<close> the results (status, bytes written) of the successive
  \<^verbatim>\<open>mx_socket_write\<close> calls of the push loop. A negative \<open>waitset_add_r\<close> makes
  \<^verbatim>\<open>mx_waitset_add\<close> fail with that status (no memory, say).
\<close>

record env =
  net_socket_r :: "int \<times> int"
  net_ioctl_r :: "int \<times> int"
  net_accept_r :: "int \<times> int"
  net_getsockopt_r :: "int \<times> int \<times> int"
  net_read_r :: "int \<times> int"
  rio_create_r :: "mx_status \<times> mx_handle \<times> mx_handle"
  data_create_r :: "mx_status \<times> mx_handle \<times> mx_handle"
  dispatcher_add_r :: mx_status
  half_close_r :: mx_status
  socket_write_rs :: "(mx_status \<times> nat) list"
  waitset_add_r :: "nat \<Rightarrow> mx_signals \<Rightarrow> mx_status"

definition emit :: "call \<Rightarrow> world \<Rightarrow> world" where
  "emit c w = w\<lparr>trace := trace w @ [c]\<rparr>"

definition upd_ios :: "nat \<Rightarrow> (iostate \<Rightarrow> iostate) \<Rightarrow> world \<Rightarrow> world" where
  "upd_ios p f w = w\<lparr>ios_tab := (ios_tab w)(p := map_option f (ios_tab w p))\<rparr>"

subsection \<open>The buffer pool\<close>

text \<open>\<^verbatim>\<open>get_rwbuf\<close> pops the free list or allocates; \<^verbatim>\<open>put_rwbuf\<close> pushes, and ignores \<^verbatim>\<open>NULL\<close>.\<close>

definition get_rwbuf :: "world \<Rightarrow> nat \<times> world" where
  "get_rwbuf w =
     (case rwbuf_head w of
        [] \<Rightarrow> (next_buf w, w\<lparr>next_buf := Suc (next_buf w)\<rparr>)
      | bufp # nxt \<Rightarrow> (bufp, w\<lparr>rwbuf_head := nxt\<rparr>))"

definition put_rwbuf :: "nat option \<Rightarrow> world \<Rightarrow> world" where
  "put_rwbuf bufp w =
     (case bufp of None \<Rightarrow> w | Some b \<Rightarrow> w\<lparr>rwbuf_head := b # rwbuf_head w\<rparr>)"

subsection \<open>Event masks, request queues and reference counts\<close>

text \<open>
  Modelled from the spec: \<^verbatim>\<open>fd_event_set\<close> of the net multiplexer, declared in
  \<^verbatim>\<open>multiplexer.h\<close>; its code is not among the sources. Section 4.11: it adds events to
  the mask of the fd.
\<close>

definition fd_event_set :: "int \<Rightarrow> event set \<Rightarrow> world \<Rightarrow> world" where
  "fd_event_set fd ev w = w\<lparr>fd_events := (fd_events w)(fd := fd_events w fd \<union> ev)\<rparr>"

text \<open>
  Modelled from the spec: \<^verbatim>\<open>fd_event_clear\<close> of the net multiplexer (section 4.11): it
  removes events from the mask of the fd.
\<close>

definition fd_event_clear :: "int \<Rightarrow> event set \<Rightarrow> world \<Rightarrow> world" where
  "fd_event_clear fd ev w = w\<lparr>fd_events := (fd_events w)(fd := fd_events w fd - ev)\<rparr>"

text \<open>
  Modelled from the spec: \<^verbatim>\<open>request_pack\<close> of \<^verbatim>\<open>request_queue.c\<close>, not among the
  sources. Section 3: a request is the tuple (op, rio endpoint, message, IOState).
\<close>

definition request_pack :: "rio_op \<Rightarrow> mx_handle \<Rightarrow> mxrio_msg option \<Rightarrow> nat \<Rightarrow> request" where
  "request_pack opc rh m p = \<lparr>rq_op = opc, rq_rh = rh, rq_msg = m, rq_ios = p\<rparr>"

text \<open>
  Modelled from the spec: \<^verbatim>\<open>wait_queue_put\<close> of \<^verbatim>\<open>request_queue.c\<close>. Sections 2
  and 5: a queue is a multimap keyed by the socket fd, and requests of one fd are served
  in arrival order.
\<close>

definition wait_queue_put :: "wait_queue \<Rightarrow> int \<Rightarrow> request \<Rightarrow> world \<Rightarrow> world" where
  "wait_queue_put q fd rq w =
     (case q of
        WAIT_NET \<Rightarrow> w\<lparr>wait_net := wait_net w @ [(fd, rq)]\<rparr>
      | WAIT_SOCKET \<Rightarrow> w\<lparr>wait_socket := wait_socket w @ [(fd, rq)]\<rparr>)"

text \<open>
  Modelled from the spec: \<^verbatim>\<open>wait_queue_discard\<close> of \<^verbatim>\<open>request_queue.c\<close>. Section
  4.9: it discards the pending requests of a queue that are keyed by the fd.
\<close>

definition wait_queue_discard :: "wait_queue \<Rightarrow> int \<Rightarrow> world \<Rightarrow> world" where
  "wait_queue_discard q fd w =
     (case q of
        WAIT_NET \<Rightarrow> w\<lparr>wait_net := filter (\<lambda>e. fst e \<noteq> fd) (wait_net w)\<rparr>
      | WAIT_SOCKET \<Rightarrow> w\<lparr>wait_socket := filter (\<lambda>e. fst e \<noteq> fd) (wait_socket w)\<rparr>)"

text \<open>
  Modelled from the spec: the IOState that \<^verbatim>\<open>iostate_alloc\<close> of \<^verbatim>\<open>iostate.c\<close>
  returns; the file is not among the sources. Section 3: a new IOState has no socket (\<open>sockfd = -1\<close>), holds no buffer, watches
  no signal, and its count is 1, the reference of the RIO endpoint.
\<close>

definition new_iostate :: iostate where
  "new_iostate =
     \<lparr>handle_type = HANDLE_TYPE_NONE, sockfd = - 1, data_h = MX_HANDLE_INVALID,
      rbuf = None, rlen = 0, roff = 0, wbuf = None, wlen = 0, woff = 0, last_errno = 0,
      watching_signals = 0, refcount = 1, read_net_read = 0, read_socket_write = 0\<rparr>"

text \<open>
  Modelled from the spec: \<^verbatim>\<open>iostate_alloc\<close> of \<^verbatim>\<open>iostate.c\<close>. It returns the
  address of a new IOState, set up as above.
\<close>

definition iostate_alloc :: "world \<Rightarrow> nat \<times> world" where
  "iostate_alloc w =
     (next_ios w,
      w\<lparr>ios_tab := (ios_tab w)(next_ios w \<mapsto> new_iostate), next_ios := Suc (next_ios w)\<rparr>)"

text \<open>
  Modelled from the spec: \<^verbatim>\<open>iostate_acquire\<close> of \<^verbatim>\<open>iostate.c\<close>. Section 4.2: it
  takes one more reference.
\<close>

definition iostate_acquire :: "nat \<Rightarrow> world \<Rightarrow> world" where
  "iostate_acquire p w = upd_ios p (\<lambda>ios. ios\<lparr>refcount := refcount ios + 1\<rparr>) w"

text \<open>
  Modelled from the spec: \<^verbatim>\<open>iostate_release\<close> of \<^verbatim>\<open>iostate.c\<close>. Sections 3 and
  4.9: it releases one reference; when the count reaches zero the IOState is freed and its
  buffers go back to the pool.
\<close>

definition iostate_release :: "nat \<Rightarrow> world \<Rightarrow> world" where
  "iostate_release p w =
     (case ios_tab w p of
        None \<Rightarrow> w
      | Some ios \<Rightarrow>
          if refcount ios - 1 = 0
          then (put_rwbuf (wbuf ios) (put_rwbuf (rbuf ios) w))
                 \<lparr>ios_tab := (ios_tab w)(p := None)\<rparr>
          else upd_ios p (\<lambda>i. i\<lparr>refcount := refcount i - 1\<rparr>) w)"

subsection \<open>The wait-set of the handle watcher\<close>

text \<open>
  The kernel's wait-set holds at most one entry per cookie. \<^verbatim>\<open>mx_waitset_add\<close> fails
  for an invalid handle, for a cookie that is in use, and when the kernel says so
  (\<open>waitset_add_r\<close>); \<^verbatim>\<open>mx_waitset_remove\<close> fails when the cookie has no entry. The
  three functions after them are those of \<^verbatim>\<open>handle_watcher.c\<close>; the cookie is the
  address of the IOState.
\<close>

definition mx_waitset_add ::
  "env \<Rightarrow> nat \<Rightarrow> mx_handle \<Rightarrow> mx_signals \<Rightarrow> world \<Rightarrow> mx_status \<times> world" where
  "mx_waitset_add en cookie h sigs w =
     (if h = MX_HANDLE_INVALID then (ERR_BAD_HANDLE, w)
      else if waitset w cookie \<noteq> None then (ERR_ALREADY_EXISTS, w)
      else if waitset_add_r en cookie sigs < 0 then (waitset_add_r en cookie sigs, w)
      else (NO_ERROR, w\<lparr>waitset := (waitset w)(cookie \<mapsto> (h, sigs))\<rparr>))"

definition mx_waitset_remove :: "nat \<Rightarrow> world \<Rightarrow> mx_status \<times> world" where
  "mx_waitset_remove cookie w =
     (if waitset w cookie = None then (ERR_NOT_FOUND, w)
      else (NO_ERROR, w\<lparr>waitset := (waitset w)(cookie := None)\<rparr>))"

definition socket_signals_change ::
  "env \<Rightarrow> nat \<Rightarrow> mx_signals \<Rightarrow> mx_signals \<Rightarrow> world \<Rightarrow> world" where
  "socket_signals_change en p old_sigs new_sigs w =
     (case ios_tab w p of
        None \<Rightarrow> w
      | Some ios \<Rightarrow>
          let (r1, w1) = (if old_sigs \<noteq> 0 then mx_waitset_remove p w else (NO_ERROR, w)) in
          if old_sigs \<noteq> 0 \<and> r1 < 0 then w1
          else
            let (r2, w2) = (if new_sigs \<noteq> 0 then mx_waitset_add en p (data_h ios) new_sigs w1
                            else (NO_ERROR, w1)) in
            if new_sigs \<noteq> 0 \<and> r2 < 0 then w2
            else upd_ios p (\<lambda>i. i\<lparr>watching_signals := new_sigs\<rparr>) w2)"

definition socket_signals_set :: "env \<Rightarrow> nat \<Rightarrow> mx_signals \<Rightarrow> world \<Rightarrow> world" where
  "socket_signals_set en p sigs w =
     (case ios_tab w p of
        None \<Rightarrow> w
      | Some ios \<Rightarrow>
          if (watching_signals ios AND sigs) = sigs then w
          else socket_signals_change en p (watching_signals ios)
                 (watching_signals ios OR sigs) w)"

definition socket_signals_clear :: "env \<Rightarrow> nat \<Rightarrow> mx_signals \<Rightarrow> world \<Rightarrow> world" where
  "socket_signals_clear en p sigs w =
     (case ios_tab w p of
        None \<Rightarrow> w
      | Some ios \<Rightarrow>
          if (watching_signals ios AND sigs) = 0 then w
          else socket_signals_change en p (watching_signals ios)
                 (watching_signals ios AND NOT sigs) w)"

subsection \<open>Kernel and backend calls\<close>

text \<open>Calls whose result the handlers ignore: they only leave an entry in the trace.\<close>

definition mx_object_signal_peer :: "mx_handle \<Rightarrow> mx_signals \<Rightarrow> mx_signals \<Rightarrow> world \<Rightarrow> world" where
  "mx_object_signal_peer h clear_mask set_mask w = emit (Mx_object_signal_peer h clear_mask set_mask) w"

definition mx_handle_close :: "mx_handle \<Rightarrow> world \<Rightarrow> world" where
  "mx_handle_close h w = emit (Mx_handle_close h) w"

section \<open>Scheduling helpers\<close>

definition schedule_sigconn_r :: "nat \<Rightarrow> world \<Rightarrow> world" where
  "schedule_sigconn_r p w =
     (case ios_tab w p of
        None \<Rightarrow> w
      | Some ios \<Rightarrow>
          wait_queue_put WAIT_NET (sockfd ios) (request_pack IO_SIGCONN_R 0 None p)
            (fd_event_set (sockfd ios) {EVENT_READ} w))"

definition schedule_r :: "nat \<Rightarrow> world \<Rightarrow> world" where
  "schedule_r p w =
     (case ios_tab w p of
        None \<Rightarrow> w
      | Some ios \<Rightarrow>
          wait_queue_put WAIT_NET (sockfd ios) (request_pack MXRIO_READ 0 None p)
            (fd_event_set (sockfd ios) {EVENT_READ} w))"

definition schedule_w :: "env \<Rightarrow> nat \<Rightarrow> world \<Rightarrow> world" where
  "schedule_w en p w =
     (case ios_tab w p of
        None \<Rightarrow> w
      | Some ios \<Rightarrow>
          wait_queue_put WAIT_SOCKET (sockfd ios) (request_pack MXRIO_WRITE 0 None p)
            (socket_signals_set en p MX_SOCKET_READABLE w))"

definition schedule_rw :: "env \<Rightarrow> nat \<Rightarrow> world \<Rightarrow> world" where
  "schedule_rw en p w =
     (case ios_tab w p of
        None \<Rightarrow> w
      | Some ios \<Rightarrow>
          let w1 = (if handle_type ios = HANDLE_TYPE_STREAM
                    then mx_object_signal_peer (data_h ios) 0 MXSIO_SIGNAL_CONNECTED w
                    else w)
          in schedule_w en p (schedule_r p w1))"

section \<open>Creating the handles of a new IOState\<close>

text \<open>
  The three results that \<^verbatim>\<open>create_handles\<close> writes through its pointer arguments
  (\<^verbatim>\<open>peer_rio_h\<close>, \<^verbatim>\<open>peer_data_h\<close>, \<^verbatim>\<open>hcount\<close>) are passed in and returned.
\<close>

type_synonym peer_out = "mx_handle \<times> mx_handle \<times> nat"

definition create_handles :: "env \<Rightarrow> nat \<Rightarrow> peer_out \<Rightarrow> world \<Rightarrow> mx_status \<times> peer_out \<times> world" where
  "create_handles en p out w =
     (case out of (peer_rio_h, peer_data_h, hcount) \<Rightarrow>
      case rio_create_r en of (r1, rio0, rio1) \<Rightarrow>
      let w1 = emit Mx_channel_create w in
      if r1 < 0 then (r1, out, w1)
      else
        let ty = (case ios_tab w1 p of None \<Rightarrow> HANDLE_TYPE_NONE | Some ios \<Rightarrow> handle_type ios);
            (r2, d0, d1) = (if ty = HANDLE_TYPE_NONE then (NO_ERROR, MX_HANDLE_INVALID, MX_HANDLE_INVALID)
                            else data_create_r en);
            w2 = (if ty = HANDLE_TYPE_STREAM then emit Mx_socket_create w1
                  else if ty = HANDLE_TYPE_DGRAM then emit Mx_channel_create w1
                  else w1)
        in
        if ty \<noteq> HANDLE_TYPE_NONE \<and> r2 < 0
        then (r2, out, mx_handle_close rio1 (mx_handle_close rio0 w2))
        else
          let hcount1 = (if ty = HANDLE_TYPE_NONE then 1 else 2);
              w3 = upd_ios p (\<lambda>i. i\<lparr>data_h := d0\<rparr>) w2;
              w4 = emit (Dispatcher_add rio0 p) w3
          in
          if dispatcher_add_r en < 0
          then (dispatcher_add_r en, (peer_rio_h, peer_data_h, hcount1),
                mx_handle_close rio1 (mx_handle_close rio0
                  (mx_handle_close d1 (mx_handle_close d0
                    (upd_ios p (\<lambda>i. i\<lparr>data_h := MX_HANDLE_INVALID\<rparr>) w4)))))
          else
            (NO_ERROR, (rio1, d1, hcount1),
             (if d0 \<noteq> MX_HANDLE_INVALID then iostate_acquire p w4 else w4)))"

section \<open>The handlers of OPEN\<close>

text \<open>
  \<^verbatim>\<open>do_open\<close> writes a terminator behind the payload, so the path is the payload up to
  its first \<^verbatim>\<open>'\0'\<close>. \<^verbatim>\<open>match_subdir\<close> compares with \<^verbatim>\<open>strncmp\<close> and then
  looks at the character behind the name; the result is the rest of the path, \<open>None\<close> for
  \<^verbatim>\<open>NULL\<close>. The directory names are those of \<^verbatim>\<open>mxio/socket.h\<close>, as the path grammar
  gives them.
\<close>

definition cstring :: "string \<Rightarrow> string" where
  "cstring bytes = takeWhile (\<lambda>c. c \<noteq> CHR 0x00) bytes"

definition match_subdir :: "string \<Rightarrow> string \<Rightarrow> nat \<Rightarrow> string option" where
  "match_subdir path name namelen =
     (if take namelen path = take namelen name
      then (if peek (drop namelen path) = CHR 0x00 then Some (drop namelen path)
            else if peek (drop namelen path) = CHR ''/'' then Some (drop (namelen + 1) path)
            else None)
      else None)"

definition MXRIO_SOCKET_DIR_NONE :: string where "MXRIO_SOCKET_DIR_NONE = ''none''"
definition MXRIO_SOCKET_DIR_SOCKET :: string where "MXRIO_SOCKET_DIR_SOCKET = ''socket''"
definition MXRIO_SOCKET_DIR_ACCEPT :: string where "MXRIO_SOCKET_DIR_ACCEPT = ''accept''"

definition MATCH_SUBDIR :: "string \<Rightarrow> string \<Rightarrow> string option" where
  "MATCH_SUBDIR path name = match_subdir path name (length name)"

definition msg_path :: "mxrio_msg \<Rightarrow> string" where
  "msg_path m = cstring (take (datalen m) (data m))"

text \<open>
  The three sub-handlers take the reply handles and their count as they stand and return
  them with the status; \<^verbatim>\<open>do_none\<close> and \<^verbatim>\<open>do_socket\<close> overwrite their
  \<^verbatim>\<open>ios\<close> argument at once, so it is left out. A handler that dereferences a pointer
  to no IOState has no result (\<open>None\<close>).
\<close>

definition do_none :: "env \<Rightarrow> peer_out \<Rightarrow> world \<Rightarrow> mx_status \<times> peer_out \<times> world" where
  "do_none en out w =
     (case iostate_alloc w of (p, w1) \<Rightarrow>
      let w2 = upd_ios p (\<lambda>i. i\<lparr>handle_type := HANDLE_TYPE_NONE\<rparr>) w1 in
      case create_handles en p out w2 of (r, out1, w3) \<Rightarrow>
      if r < 0 then (r, out1, iostate_release p w3)
      else (NO_ERROR, out1, w3))"

definition do_socket :: "env \<Rightarrow> mxrio_msg \<Rightarrow> peer_out \<Rightarrow> world \<Rightarrow> mx_status \<times> peer_out \<times> world" where
  "do_socket en m out w =
     (case MATCH_SUBDIR (msg_path m) MXRIO_SOCKET_DIR_SOCKET of
        None \<Rightarrow> (ERR_INVALID_ARGS, out, w)
      | Some ptr \<Rightarrow>
     (case parse_socket_args ptr of
        Inl e \<Rightarrow> (ERR_INVALID_ARGS, out, w)
      | Inr (domain, type, protocol) \<Rightarrow>
          if type \<noteq> SOCK_STREAM \<and> type \<noteq> SOCK_DGRAM then (ERR_NOT_SUPPORTED, out, w)
          else
            let ty = (if type = SOCK_STREAM then HANDLE_TYPE_STREAM else HANDLE_TYPE_DGRAM) in
            case iostate_alloc w of (p, w1) \<Rightarrow>
            case net_socket_r en of (fd, e1) \<Rightarrow>
            let errno1 = (if fd < 0 then e1 else 0);
                w2 = upd_ios p (\<lambda>i. i\<lparr>handle_type := ty, sockfd := fd, last_errno := errno1\<rparr>)
                       (emit (Net_socket domain type protocol) w1)
            in
            if errno1 \<noteq> 0 then (errno_to_status errno1, out, w2)
            else
              case net_ioctl_r en of (ret, e2) \<Rightarrow>
              let errno2 = (if ret < 0 then e2 else 0);
                  w3 = upd_ios p (\<lambda>i. i\<lparr>last_errno := errno2\<rparr>) (emit (Net_ioctl_FIONBIO fd) w2)
              in
              if errno2 \<noteq> 0 then (errno_to_status errno2, out, iostate_release p w3)
              else
                case create_handles en p out w3 of (r, out1, w4) \<Rightarrow>
                if r < 0 then (r, out1, iostate_release p w4)
                else
                  let w5 = socket_signals_set en p (MX_SOCKET_PEER_CLOSED OR MXSIO_SIGNAL_HALFCLOSED)
                             (fd_event_set fd {EVENT_EXCEPT} w4);
                      w6 = (if ty = HANDLE_TYPE_DGRAM then schedule_w en p w5 else w5)
                  in (NO_ERROR, out1, w6)))"

definition do_accept :: "env \<Rightarrow> nat \<Rightarrow> peer_out \<Rightarrow> world \<Rightarrow> (mx_status \<times> peer_out \<times> world) option" where
  "do_accept en p out w =
     (case ios_tab w p of
        None \<Rightarrow> None
      | Some ios \<Rightarrow>
          case net_accept_r en of (ret, e1) \<Rightarrow>
          let errno1 = (if ret < 0 then e1 else 0);
              w1 = upd_ios p (\<lambda>i. i\<lparr>last_errno := errno1\<rparr>) (emit (Net_accept (sockfd ios)) w)
          in
          if errno1 \<noteq> 0 then Some (errno_to_status errno1, out, w1)
          else
            let w2 = (if handle_type ios = HANDLE_TYPE_STREAM
                      then mx_object_signal_peer (data_h ios) MXSIO_SIGNAL_INCOMING 0 w1
                      else w1);
                w3 = schedule_sigconn_r p w2
            in
            case iostate_alloc w3 of (pn, w4) \<Rightarrow>
            let w5 = upd_ios pn (\<lambda>i. i\<lparr>handle_type := handle_type ios, sockfd := ret\<rparr>) w4 in
            case net_ioctl_r en of (ret2, e2) \<Rightarrow>
            let errno2 = (if ret2 < 0 then e2 else 0);
                w6 = upd_ios p (\<lambda>i. i\<lparr>last_errno := errno2\<rparr>) (emit (Net_ioctl_FIONBIO ret) w5)
            in
            if errno2 \<noteq> 0 then Some (errno_to_status errno2, out, iostate_release pn w6)
            else
              case create_handles en pn out w6 of (r, out1, w7) \<Rightarrow>
              if r < 0 then Some (r, out1, iostate_release pn w7)
              else
                let w8 = socket_signals_set en pn (MX_SOCKET_PEER_CLOSED OR MXSIO_SIGNAL_HALFCLOSED)
                           (fd_event_set ret {EVENT_EXCEPT} w7)
                in Some (NO_ERROR, out1, schedule_rw en pn w8))"

definition out0 :: peer_out where
  "out0 = (MX_HANDLE_INVALID, MX_HANDLE_INVALID, 0)"

definition do_open :: "env \<Rightarrow> mxrio_msg \<Rightarrow> nat \<Rightarrow> world \<Rightarrow> (mx_status \<times> world) option" where
  "do_open en m p w =
     (let res =
            (if datalen m < 1 \<or> datalen m > 1024 then Some (ERR_INVALID_ARGS, out0, w)
             else if MATCH_SUBDIR (msg_path m) MXRIO_SOCKET_DIR_NONE \<noteq> None
               then Some (do_none en out0 w)
             else if MATCH_SUBDIR (msg_path m) MXRIO_SOCKET_DIR_SOCKET \<noteq> None
               then Some (do_socket en m out0 w)
             else if MATCH_SUBDIR (msg_path m) MXRIO_SOCKET_DIR_ACCEPT \<noteq> None
               then do_accept en p out0 w
             else Some (ERR_INVALID_ARGS, out0, w))
      in case res of
           None \<Rightarrow> None
         | Some (r, (peer_rio_h, peer_data_h, hcount), w1) \<Rightarrow>
             Some (NO_ERROR,
               mx_handle_close (handle0 m)
                 (emit (Mx_channel_write (handle0 m) r (take hcount [peer_rio_h, peer_data_h])) w1)))"

section \<open>CLOSE and the connection pseudo-op\<close>

definition net_close :: "int \<Rightarrow> world \<Rightarrow> world" where
  "net_close fd w = emit (Net_close fd) w"

definition do_close :: "nat \<Rightarrow> world \<Rightarrow> (mx_status \<times> world) option" where
  "do_close p w =
     (case ios_tab w p of
        None \<Rightarrow> None
      | Some ios \<Rightarrow>
          let w1 = (if sockfd ios \<ge> 0
                    then upd_ios p (\<lambda>i. i\<lparr>sockfd := - 1\<rparr>)
                           (wait_queue_discard WAIT_SOCKET (sockfd ios)
                             (wait_queue_discard WAIT_NET (sockfd ios)
                               (fd_event_clear (sockfd ios) EVENT_ALL
                                 (net_close (sockfd ios) w))))
                    else w)
          in Some (NO_ERROR, iostate_release p w1))"

definition do_sigconn_w :: "env \<Rightarrow> nat \<Rightarrow> world \<Rightarrow> (mx_status \<times> world) option" where
  "do_sigconn_w en p w =
     (case ios_tab w p of
        None \<Rightarrow> None
      | Some ios \<Rightarrow>
          let w1 = (if handle_type ios = HANDLE_TYPE_STREAM
                    then mx_object_signal_peer (data_h ios) 0 MXSIO_SIGNAL_OUTGOING w
                    else w)
          in
          case net_getsockopt_r en of (ret, e, val) \<Rightarrow>
          let errno1 = (if ret < 0 then e else 0);
              w2 = emit (Net_getsockopt_SO_ERROR (sockfd ios)) w1
          in
          if errno1 = 0
          then
            let w3 = upd_ios p (\<lambda>i. i\<lparr>last_errno := val\<rparr>) w2 in
            Some (NO_ERROR, if val = 0 then schedule_rw en p w3 else w3)
          else Some (NO_ERROR, w2))"

section \<open>The stream read pipeline\<close>

text \<open>
  \<open>connection_closed\<close> is the code at the label of that name. The push loop takes one
  result of \<^verbatim>\<open>mx_socket_write\<close> from \<open>socket_write_rs\<close> in every round; when the
  list is used up before the loop ends, the run has no result.
\<close>

definition connection_closed :: "env \<Rightarrow> iostate \<Rightarrow> world \<Rightarrow> (mx_status \<times> world) option" where
  "connection_closed en ios w =
     (let r = half_close_r en;
          w1 = emit (Mx_socket_write (data_h ios) MX_SOCKET_HALF_CLOSE None) w
      in if r < 0
         then (if r \<noteq> ERR_PEER_CLOSED then Some (r, w1) else Some (NO_ERROR, w1))
         else Some (NO_ERROR, w1))"

fun push_stream :: "env \<Rightarrow> nat \<Rightarrow> (mx_status \<times> nat) list \<Rightarrow> world \<Rightarrow> (mx_status \<times> world) option" where
  "push_stream en p rs w =
     (case ios_tab w p of
        None \<Rightarrow> None
      | Some ios \<Rightarrow>
          if roff ios < rlen ios
          then
            (case rbuf ios of
               None \<Rightarrow> None
             | Some b \<Rightarrow>
                (case rs of
                   [] \<Rightarrow> None
                 | (r, nwritten) # rs1 \<Rightarrow>
                     let w1 = emit (Mx_socket_write (data_h ios) 0
                                     (Some (b, roff ios, rlen ios - roff ios))) w
                     in
                     if r < 0
                     then (if r = ERR_SHOULD_WAIT
                           then Some (PENDING_SOCKET, socket_signals_set en p MX_SOCKET_WRITABLE w1)
                           else Some (r, w1))
                     else push_stream en p rs1
                            (upd_ios p (\<lambda>i. i\<lparr>roff := roff i + int nwritten,
                                 read_socket_write := read_socket_write i + int nwritten\<rparr>) w1)))
          else
            Some (PENDING_NET,
                  fd_event_set (sockfd ios) {EVENT_READ}
                    (upd_ios p (\<lambda>i. i\<lparr>rlen := 0, roff := 0\<rparr>) w)))"

definition do_read_stream :: "env \<Rightarrow> nat \<Rightarrow> world \<Rightarrow> (mx_status \<times> world) option" where
  "do_read_stream en p w =
     (case ios_tab w p of
        None \<Rightarrow> None
      | Some ios \<Rightarrow>
          if rlen ios \<le> 0
          then
            (case (case rbuf ios of
                     None \<Rightarrow> (case get_rwbuf w of (b, w0) \<Rightarrow>
                                 (b, upd_ios p (\<lambda>i. i\<lparr>rbuf := Some b\<rparr>) w0))
                   | Some b \<Rightarrow> (b, w)) of (b, w1) \<Rightarrow>
             case net_read_r en of (n, e) \<Rightarrow>
             let errno1 = (if n < 0 then e else 0);
                 w2 = upd_ios p (\<lambda>i. i\<lparr>last_errno := errno1\<rparr>)
                        (emit (Net_read (sockfd ios) b RWBUF_SIZE) w1)
             in
             if n = 0 then connection_closed en ios w2
             else if errno1 = EWOULDBLOCK
               then Some (PENDING_NET, fd_event_set (sockfd ios) {EVENT_READ} w2)
             else if errno1 \<noteq> 0 then connection_closed en ios w2
             else push_stream en p (socket_write_rs en)
                    (upd_ios p (\<lambda>i. i\<lparr>rlen := n, roff := 0,
                                   read_net_read := read_net_read i + n\<rparr>) w2))
          else push_stream en p (socket_write_rs en) w)"

section \<open>Interface enumeration\<close>

text \<open>
  The case \<^verbatim>\<open>IOCTL_NETC_GET_IF_INFO\<close> of \<^verbatim>\<open>do_ioctl\<close>. The backend's
  \<^verbatim>\<open>net_if_info_t\<close> and the reply's \<^verbatim>\<open>netc_if_info_t\<close> have the same fields and
  share one record; \<open>copy_if_info\<close> is the field-by-field copy of the loop body
  (\<^verbatim>\<open>strncpy\<close> of the name, \<^verbatim>\<open>memcpy\<close> of \<^verbatim>\<open>hwaddr_len\<close> bytes).
  \<^verbatim>\<open>NETC_IF_INFO_MAX\<close> and \<^verbatim>\<open>NETC_IFNAME_SIZE\<close> come from \<^verbatim>\<open>netconfig.h\<close>,
  which is not among the sources: they are parameters. \<open>net_get_if_info\<close> answers, for an
  index, the return value and the interface; \<open>errno1\<close> is \<^verbatim>\<open>errno\<close> after the loop. The
  reply is \<open>None\<close> when \<^verbatim>\<open>msg->datalen\<close> is set to 0.
\<close>

record if_info =
  if_name :: string
  if_addr :: string
  if_netmask :: string
  if_broadaddr :: string
  if_flags :: nat
  if_index :: nat
  if_hwaddr :: string
  if_hwaddr_len :: nat

definition zero_if_info :: if_info where
  "zero_if_info = \<lparr>if_name = [], if_addr = [], if_netmask = [], if_broadaddr = [],
     if_flags = 0, if_index = 0, if_hwaddr = [], if_hwaddr_len = 0\<rparr>"

definition copy_if_info :: "nat \<Rightarrow> if_info \<Rightarrow> if_info" where
  "copy_if_info NETC_IFNAME_SIZE info =
     \<lparr>if_name = take NETC_IFNAME_SIZE (if_name info), if_addr = if_addr info,
      if_netmask = if_netmask info, if_broadaddr = if_broadaddr info,
      if_flags = if_flags info, if_index = if_index info,
      if_hwaddr = take (if_hwaddr_len info) (if_hwaddr info),
      if_hwaddr_len = if_hwaddr_len info\<rparr>"

record netc_get_if_info =
  n_info :: nat
  info :: "if_info list"

function get_if_info_loop ::
  "(nat \<Rightarrow> int \<times> if_info) \<Rightarrow> nat \<Rightarrow> nat \<Rightarrow> nat \<Rightarrow> int \<Rightarrow> if_info list
     \<Rightarrow> nat \<times> int \<times> if_info list" where
  "get_if_info_loop net_get_if_info NETC_IF_INFO_MAX NETC_IFNAME_SIZE idx ret infos =
     (if idx < NETC_IF_INFO_MAX
      then (case net_get_if_info idx of (ret1, ifc) \<Rightarrow>
              if ret1 < 0 then (idx, ret1, infos)
              else
                let infos1 = infos[idx := copy_if_info NETC_IFNAME_SIZE ifc] in
                if ret1 = 0 then (idx, ret1, infos1)
                else get_if_info_loop net_get_if_info NETC_IF_INFO_MAX NETC_IFNAME_SIZE
                       (idx + 1) ret1 infos1)
      else (idx, ret, infos))"
  by pat_completeness auto
termination
  by (relation "measure (\<lambda>(g, m, s, idx, ret, infos). m - idx)") auto

definition do_ioctl_GET_IF_INFO ::
  "(nat \<Rightarrow> int \<times> if_info) \<Rightarrow> int \<Rightarrow> nat \<Rightarrow> nat \<Rightarrow> mx_status \<times> netc_get_if_info option" where
  "do_ioctl_GET_IF_INFO net_get_if_info errno1 NETC_IF_INFO_MAX NETC_IFNAME_SIZE =
     (case get_if_info_loop net_get_if_info NETC_IF_INFO_MAX NETC_IFNAME_SIZE 0 (- 1)
             (replicate NETC_IF_INFO_MAX zero_if_info) of
        (idx, ret, infos) \<Rightarrow>
          if ret < 0 then (errno_to_status errno1, None)
          else (NO_ERROR, Some \<lparr>n_info = idx, info = infos\<rparr>))"

section \<open>Notions used in the statements\<close>

text \<open>
  A sequence of calls of \<^verbatim>\<open>socket_signals_set\<close> and \<^verbatim>\<open>socket_signals_clear\<close> on one
  IOState, each with what the kernel answers during it.
\<close>

datatype signal_call = Signals_set mx_signals | Signals_clear mx_signals

fun run_signal_calls :: "nat \<Rightarrow> (env \<times> signal_call) list \<Rightarrow> world \<Rightarrow> world" where
  "run_signal_calls p [] w = w"
| "run_signal_calls p ((en, Signals_set sigs) # cs) w =
     run_signal_calls p cs (socket_signals_set en p sigs w)"
| "run_signal_calls p ((en, Signals_clear sigs) # cs) w =
     run_signal_calls p cs (socket_signals_clear en p sigs w)"

text \<open>
  The invariant P1 of the specification for the IOState at \<open>p\<close>: it watches some signal
  exactly when the wait-set has an entry under its cookie. \<open>watched p h\<close> adds that the
  IOState is live and that \<open>h\<close> is its data endpoint.
\<close>

definition P1 :: "nat \<Rightarrow> world \<Rightarrow> bool" where
  "P1 p w =
     (case ios_tab w p of
        None \<Rightarrow> True
      | Some ios \<Rightarrow> (watching_signals ios \<noteq> 0) = (waitset w p \<noteq> None))"

definition watched :: "nat \<Rightarrow> mx_handle \<Rightarrow> world \<Rightarrow> bool" where
  "watched p h w =
     (case ios_tab w p of
        None \<Rightarrow> False
      | Some ios \<Rightarrow> data_h ios = h \<and> (watching_signals ios \<noteq> 0) = (waitset w p \<noteq> None))"

definition add_succeeds :: "env \<Rightarrow> nat \<Rightarrow> bool" where
  "add_succeeds en p = (\<forall>sigs. 0 \<le> waitset_add_r en p sigs)"

text \<open>An IOState without its \<open>watching_signals\<close>: what the signal helpers leave alone.\<close>

definition ios_core :: "world \<Rightarrow> nat \<Rightarrow> iostate option" where
  "ios_core w q = map_option (\<lambda>i. i\<lparr>watching_signals := 0\<rparr>) (ios_tab w q)"

text \<open>
  \<open>quiet w w'\<close>: the trace of \<open>w'\<close> extends the trace of \<open>w\<close> by calls none of which
  writes to a channel. \<open>open_handler\<close> is the sub-handler that \<^verbatim>\<open>do_open\<close> selects,
  with its result.
\<close>

definition is_channel_write :: "call \<Rightarrow> bool" where
  "is_channel_write c = (case c of Mx_channel_write h r hs \<Rightarrow> True | _ \<Rightarrow> False)"

definition quiet :: "world \<Rightarrow> world \<Rightarrow> bool" where
  "quiet w w' \<longleftrightarrow> (\<exists>evs. trace w' = trace w @ evs \<and> list_all (\<lambda>c. \<not> is_channel_write c) evs)"

definition open_handler ::
  "env \<Rightarrow> mxrio_msg \<Rightarrow> nat \<Rightarrow> world \<Rightarrow> (mx_status \<times> peer_out \<times> world) option" where
  "open_handler en m p w =
     (if datalen m < 1 \<or> datalen m > 1024 then Some (ERR_INVALID_ARGS, out0, w)
      else if MATCH_SUBDIR (msg_path m) MXRIO_SOCKET_DIR_NONE \<noteq> None
        then Some (do_none en out0 w)
      else if MATCH_SUBDIR (msg_path m) MXRIO_SOCKET_DIR_SOCKET \<noteq> None
        then Some (do_socket en m out0 w)
      else if MATCH_SUBDIR (msg_path m) MXRIO_SOCKET_DIR_ACCEPT \<noteq> None
        then do_accept en p out0 w
      else Some (ERR_INVALID_ARGS, out0, w))"

text \<open>
  \<open>accept_selected m\<close>: the length of the payload is in range and, of the three
  directory tests of \<^verbatim>\<open>do_open\<close>, the third is the first to match, so the request goes
  to \<^verbatim>\<open>do_accept\<close>.
\<close>

definition accept_selected :: "mxrio_msg \<Rightarrow> bool" where
  "accept_selected m \<longleftrightarrow>
     \<not> (datalen m < 1 \<or> datalen m > 1024) \<and>
     MATCH_SUBDIR (msg_path m) MXRIO_SOCKET_DIR_NONE = None \<and>
     MATCH_SUBDIR (msg_path m) MXRIO_SOCKET_DIR_SOCKET = None \<and>
     MATCH_SUBDIR (msg_path m) MXRIO_SOCKET_DIR_ACCEPT \<noteq> None"

text \<open>The buffer that \<^verbatim>\<open>do_read_stream\<close> reads into: the one held, or the next of the pool.\<close>

definition read_buffer :: "iostate \<Rightarrow> world \<Rightarrow> nat" where
  "read_buffer ios w = (case rbuf ios of None \<Rightarrow> fst (get_rwbuf w) | Some b \<Rightarrow> b)"

section \<open>Example states\<close>

text \<open>
  A backend and kernel where every call succeeds, the empty state, and a state with one
  stream IOState at address 1: socket 5, data endpoint 7, both references held.
\<close>

definition env_ok :: env where
  "env_ok = \<lparr>net_socket_r = (3, 0), net_ioctl_r = (0, 0), net_accept_r = (4, 0),
     net_getsockopt_r = (0, 0, 0), net_read_r = (0, 0), rio_create_r = (0, 10, 11),
     data_create_r = (0, 12, 13), dispatcher_add_r = 0, half_close_r = 0,
     socket_write_rs = [], waitset_add_r = (\<lambda>cookie sigs. 0)\<rparr>"

definition world0 :: world where
  "world0 = \<lparr>ios_tab = (\<lambda>p. None), next_ios = 1, rwbuf_head = [], next_buf = 0,
     fd_events = (\<lambda>fd. {}), wait_net = [], wait_socket = [], waitset = (\<lambda>cookie. None),
     trace = []\<rparr>"

definition stream_ios :: iostate where
  "stream_ios = new_iostate\<lparr>handle_type := HANDLE_TYPE_STREAM, sockfd := 5, data_h := 7,
     refcount := 2\<rparr>"

definition world1 :: world where
  "world1 = world0\<lparr>ios_tab := (ios_tab world0)(1 \<mapsto> stream_ios), next_ios := 2\<rparr>"

lemmas example_defs = env_ok_def world0_def world1_def stream_ios_def new_iostate_def

text \<open>A kernel that refuses every \<^verbatim>\<open>mx_waitset_add\<close>, and two calls, the second under it.\<close>

definition env_no_memory :: env where
  "env_no_memory = env_ok\<lparr>waitset_add_r := (\<lambda>cookie sigs. ERR_NO_MEMORY)\<rparr>"

definition add_fails_calls :: "(env \<times> signal_call) list" where
  "add_fails_calls =
     [(env_ok, Signals_set MX_SOCKET_READABLE), (env_no_memory, Signals_set MX_SOCKET_WRITABLE)]"

text \<open>The state after \<^verbatim>\<open>SIGCONN_W\<close> found \<^verbatim>\<open>SO_ERROR = 111\<close> (connection refused).\<close>

definition world1_refused :: world where
  "world1_refused = world1\<lparr>ios_tab := (ios_tab world1)(1 \<mapsto> stream_ios\<lparr>last_errno := 111\<rparr>),
     trace := [Mx_object_signal_peer 7 0 MXSIO_SIGNAL_OUTGOING, Net_getsockopt_SO_ERROR 5]\<rparr>"

text \<open>The state after an \<^verbatim>\<open>accept\<close> that would block.\<close>

definition world1_would_block :: world where
  "world1_would_block =
     world1\<lparr>ios_tab := (ios_tab world1)(1 \<mapsto> stream_ios\<lparr>last_errno := EWOULDBLOCK\<rparr>),
       trace := [Net_accept 5]\<rparr>"

text \<open>
  An IOState that holds a read buffer and is armed for two events, and the states after
  one and after two runs of \<^verbatim>\<open>CLOSE\<close>.
\<close>

definition closing_ios :: iostate where
  "closing_ios = stream_ios\<lparr>rbuf := Some 3\<rparr>"

definition world_c0 :: world where
  "world_c0 = world0\<lparr>ios_tab := (ios_tab world0)(1 \<mapsto> closing_ios), next_ios := 2,
     next_buf := 4, fd_events := (fd_events world0)(5 := {EVENT_READ, EVENT_EXCEPT})\<rparr>"

definition world_c1 :: world where
  "world_c1 = world_c0\<lparr>ios_tab := (ios_tab world0)(1 \<mapsto> closing_ios\<lparr>sockfd := - 1, refcount := 1\<rparr>),
     fd_events := (fd_events world0)(5 := {}), trace := [Net_close 5]\<rparr>"

definition world_c2 :: world where
  "world_c2 = world_c1\<lparr>ios_tab := ios_tab world0, rwbuf_head := [3]\<rparr>"

text \<open>
  An \<^verbatim>\<open>OPEN\<close> of \<^verbatim>\<open>none\<close>, one of \<^verbatim>\<open>accept\<close>, and a backend with two
  interfaces.
\<close>

definition msg_none :: mxrio_msg where
  "msg_none = \<lparr>datalen = 4, data = ''none'', handle0 = 9\<rparr>"

definition msg_accept :: mxrio_msg where
  "msg_accept = \<lparr>datalen = 6, data = ''accept'', handle0 = 9\<rparr>"

definition two_interfaces :: "nat \<Rightarrow> int \<times> if_info" where
  "two_interfaces i = (if i = 0 then 1 else 0, zero_if_info\<lparr>if_index := i\<rparr>)"

section \<open>The errno mapping\<close>

text \<open>
  Claim C9. The errno mapping is exactly: \<open>EACCES\<close> to \<open>ACCESS_DENIED\<close>, \<open>EBADF\<close> to
  \<open>BAD_HANDLE\<close>, \<open>EINPROGRESS\<close> and \<open>EWOULDBLOCK\<close> to \<open>SHOULD_WAIT\<close>, \<open>EINVAL\<close> to
  \<open>INVALID_ARGS\<close>, \<open>EIO\<close> to \<open>IO\<close>, \<open>ENOBUFS\<close> to \<open>NO_RESOURCES\<close>, \<open>ENOMEM\<close> to
  \<open>NO_MEMORY\<close>, and every other integer to \<open>IO\<close>; the function is defined on every
  integer.
\<close>

theorem errno_to_status_mapping:
  "errno_to_status EACCES = ERR_ACCESS_DENIED \<and>
   errno_to_status EBADF = ERR_BAD_HANDLE \<and>
   errno_to_status EINPROGRESS = ERR_SHOULD_WAIT \<and>
   errno_to_status EWOULDBLOCK = ERR_SHOULD_WAIT \<and>
   errno_to_status EINVAL = ERR_INVALID_ARGS \<and>
   errno_to_status EIO = ERR_IO \<and>
   errno_to_status ENOBUFS = ERR_NO_RESOURCES \<and>
   errno_to_status ENOMEM = ERR_NO_MEMORY \<and>
   (\<forall>e. e \<notin> {EACCES, EBADF, EINPROGRESS, EWOULDBLOCK, EINVAL, EIO, ENOBUFS, ENOMEM}
        \<longrightarrow> errno_to_status e = ERR_IO)"
  by (simp add: errno_to_status_def errno_defs)

theorem errno_to_status_mapping_witness:
  "(1::int) \<notin> {EACCES, EBADF, EINPROGRESS, EWOULDBLOCK, EINVAL, EIO, ENOBUFS, ENOMEM} \<and>
   errno_to_status 1 = ERR_IO"
proof -
  have out: "(1::int) \<notin> {EACCES, EBADF, EINPROGRESS, EWOULDBLOCK, EINVAL, EIO, ENOBUFS, ENOMEM}"
    by (simp add: errno_defs)
  from errno_to_status_mapping
  have "\<forall>e. e \<notin> {EACCES, EBADF, EINPROGRESS, EWOULDBLOCK, EINVAL, EIO, ENOBUFS, ENOMEM}
          \<longrightarrow> errno_to_status e = ERR_IO"
    by blast
  with out show ?thesis by blast
qed

section \<open>The grammar of the socket path\<close>

lemma not_space_sign_digit:
  "\<not> isspace (CHR ''+'')" "\<not> isspace (CHR ''-'')" "isdigit c \<Longrightarrow> \<not> isspace c"
  "\<not> isdigit (CHR ''+'')" "\<not> isdigit (CHR ''-'')" "\<not> isdigit (CHR ''/'')" "\<not> isdigit (CHR 0x00)"
  by (auto simp: isspace_def isdigit_def)

lemma strtol_of_form:
  assumes ws: "list_all isspace ws"
    and sg: "sg = [] \<or> sg = ''+'' \<or> sg = ''-''"
    and ds: "ds \<noteq> []" "list_all isdigit ds"
    and rest: "rest = [] \<or> \<not> isdigit (hd rest)"
    and v: "v = (if sg = ''-'' then - int (digits_value ds) else int (digits_value ds))"
    and range: "LONG_MIN \<le> v" "v \<le> LONG_MAX"
  shows "strtol (ws @ sg @ ds @ rest) e0 = (v, rest, e0)"
proof -
  obtain d ds' where dsc: "ds = d # ds'" using ds(1) by (cases ds) auto
  have dd: "isdigit d" using ds(2) dsc by simp
  have hdns: "\<not> isspace (hd (sg @ ds @ rest))"
    using sg dd dsc not_space_sign_digit by auto
  have s1: "dropWhile isspace (ws @ sg @ ds @ rest) = sg @ ds @ rest"
    using ws hdns dsc by (cases "sg @ ds @ rest") (auto simp: dropWhile_append list_all_iff)
  have tk: "takeWhile isdigit (ds @ rest) = ds"
    using ds(2) rest by (cases rest) (auto simp: takeWhile_append list_all_iff)
  have dr: "dropWhile isdigit (ds @ rest) = rest"
    using ds(2) rest by (cases rest) (auto simp: dropWhile_append list_all_iff)
  from sg show ?thesis
  proof (elim disjE)
    assume "sg = []"
    then show ?thesis
      using s1 tk dr dsc dd v range not_space_sign_digit
      by (auto simp: strtol_def Let_def)
  next
    assume "sg = ''+''"
    then show ?thesis
      using s1 tk dr dsc dd v range not_space_sign_digit
      by (auto simp: strtol_def Let_def)
  next
    assume "sg = ''-''"
    then show ?thesis
      using s1 tk dr dsc dd v range not_space_sign_digit
      by (auto simp: strtol_def Let_def)
  qed
qed

lemma strtol_ok_form:
  assumes "strtol s 0 = (v, rest, 0)"
  shows "\<exists>a. s = a @ rest \<and> c_long_literal a v \<and> (rest = [] \<or> \<not> isdigit (hd rest))"
proof -
  define s1 where "s1 = dropWhile isspace s"
  define sg where "sg = (if s1 \<noteq> [] \<and> (hd s1 = CHR ''-'' \<or> hd s1 = CHR ''+'') then [hd s1] else [])"
  define s2 where "s2 = (if s1 \<noteq> [] \<and> (hd s1 = CHR ''-'' \<or> hd s1 = CHR ''+'') then tl s1 else s1)"
  define ds where "ds = takeWhile isdigit s2"
  have s: "s = takeWhile isspace s @ s1" by (simp add: s1_def)
  have s1s: "s1 = sg @ s2" by (cases s1) (auto simp: sg_def s2_def)
  have s2s: "s2 = ds @ dropWhile isdigit s2" by (simp add: ds_def)
  have neg: "(s1 \<noteq> [] \<and> hd s1 = CHR ''-'') \<longleftrightarrow> sg = ''-''"
    by (auto simp: sg_def)
  from assms have nz: "ds \<noteq> []"
    by (auto simp: strtol_def Let_def s1_def s2_def ds_def EINVAL_def split: if_splits)
  from assms nz have r: "rest = dropWhile isdigit s2"
    by (auto simp: strtol_def Let_def s1_def s2_def ds_def ERANGE_def split: if_splits)
  from assms nz have v: "v = (if sg = ''-'' then - int (digits_value ds) else int (digits_value ds))"
    unfolding neg[symmetric]
    by (auto simp: strtol_def Let_def s1_def s2_def ds_def ERANGE_def split: if_splits)
  from assms nz have rng: "LONG_MIN \<le> v \<and> v \<le> LONG_MAX"
    by (auto simp: strtol_def Let_def s1_def s2_def ds_def ERANGE_def split: if_splits)
  have lit: "c_long_literal (takeWhile isspace s @ sg @ ds) v"
    unfolding c_long_literal_def
    apply (rule exI[of _ "takeWhile isspace s"], rule exI[of _ sg], rule exI[of _ ds])
    using nz v rng by (auto simp: list_all_iff sg_def ds_def dest: set_takeWhileD)
  have hdr: "rest = [] \<or> \<not> isdigit (hd rest)"
    unfolding r using hd_dropWhile[of isdigit s2] by blast
  have "s = (takeWhile isspace s @ sg @ ds) @ rest"
    using s s1s s2s r by (metis append.assoc)
  with lit hdr show ?thesis by blast
qed

lemma peek_slash: "peek p = CHR ''/'' \<Longrightarrow> p = CHR ''/'' # tl p"
  by (cases p) (auto simp: peek_def)

lemma peek_nul: "peek p = CHR 0x00 \<longleftrightarrow> (p = [] \<or> hd p = CHR 0x00)"
  by (cases p) (auto simp: peek_def)

lemma parse_socket_args_Inl: "parse_socket_args s = Inl e \<Longrightarrow> e = ERR_INVALID_ARGS"
  unfolding parse_socket_args_def by (simp split: prod.splits if_splits)

lemma parse_socket_args_status:
  "parse_socket_args s = Inl ERR_INVALID_ARGS \<or> (\<exists>x. parse_socket_args s = Inr x)"
  using parse_socket_args_Inl[of s] by (cases "parse_socket_args s") auto

lemma parse_socket_args_accept:
  assumes a: "c_long_literal a dv" and b: "c_long_literal b tv" and c: "c_long_literal c pv"
    and r: "r = [] \<or> hd r = CHR 0x00"
  shows "parse_socket_args (a @ ''/'' @ b @ ''/'' @ c @ r)
           = Inr (long_to_int dv, long_to_int tv, long_to_int pv)"
proof -
  from a obtain ws1 sg1 ds1 where a': "a = ws1 @ sg1 @ ds1" "list_all isspace ws1"
      "sg1 = [] \<or> sg1 = ''+'' \<or> sg1 = ''-''" "ds1 \<noteq> []" "list_all isdigit ds1"
      "dv = (if sg1 = ''-'' then - int (digits_value ds1) else int (digits_value ds1))"
      "LONG_MIN \<le> dv" "dv \<le> LONG_MAX"
    unfolding c_long_literal_def by blast
  from b obtain ws2 sg2 ds2 where b': "b = ws2 @ sg2 @ ds2" "list_all isspace ws2"
      "sg2 = [] \<or> sg2 = ''+'' \<or> sg2 = ''-''" "ds2 \<noteq> []" "list_all isdigit ds2"
      "tv = (if sg2 = ''-'' then - int (digits_value ds2) else int (digits_value ds2))"
      "LONG_MIN \<le> tv" "tv \<le> LONG_MAX"
    unfolding c_long_literal_def by blast
  from c obtain ws3 sg3 ds3 where c': "c = ws3 @ sg3 @ ds3" "list_all isspace ws3"
      "sg3 = [] \<or> sg3 = ''+'' \<or> sg3 = ''-''" "ds3 \<noteq> []" "list_all isdigit ds3"
      "pv = (if sg3 = ''-'' then - int (digits_value ds3) else int (digits_value ds3))"
      "LONG_MIN \<le> pv" "pv \<le> LONG_MAX"
    unfolding c_long_literal_def by blast
  have nd: "r = [] \<or> \<not> isdigit (hd r)"
    using r not_space_sign_digit(7) by auto
  have st3: "strtol (c @ r) 0 = (pv, r, 0)"
    using strtol_of_form[OF c'(2-5) nd c'(6-8), of 0] by (simp add: c'(1))
  have st2: "strtol (b @ CHR ''/'' # c @ r) 0 = (tv, CHR ''/'' # c @ r, 0)"
    using strtol_of_form[OF b'(2-5) _ b'(6-8), of "CHR ''/'' # c @ r" 0]
    by (simp add: b'(1) not_space_sign_digit)
  have st1: "strtol (a @ CHR ''/'' # b @ CHR ''/'' # c @ r) 0
               = (dv, CHR ''/'' # b @ CHR ''/'' # c @ r, 0)"
    using strtol_of_form[OF a'(2-5) _ a'(6-8), of "CHR ''/'' # b @ CHR ''/'' # c @ r" 0]
    by (simp add: a'(1) not_space_sign_digit)
  show ?thesis
    using r by (simp add: parse_socket_args_def st1 st2 st3 peek_nul) (simp add: peek_def)
qed

lemma parse_socket_args_form:
  assumes "parse_socket_args s = Inr (d, t, p)"
  shows "\<exists>a b c r dv tv pv. s = a @ ''/'' @ b @ ''/'' @ c @ r \<and> (r = [] \<or> hd r = CHR 0x00) \<and>
           c_long_literal a dv \<and> c_long_literal b tv \<and> c_long_literal c pv \<and>
           d = long_to_int dv \<and> t = long_to_int tv \<and> p = long_to_int pv"
proof -
  obtain dv ptr1 e1 where s1: "strtol s 0 = (dv, ptr1, e1)" by (cases "strtol s 0") auto
  with assms have e1: "e1 = 0" and p1: "peek ptr1 = CHR ''/''"
    by (auto simp: parse_socket_args_def split: if_splits)
  obtain tv ptr2 e2 where s2: "strtol (tl ptr1) 0 = (tv, ptr2, e2)"
    by (cases "strtol (tl ptr1) 0") auto
  with assms s1 e1 p1 have e2: "e2 = 0" and p2: "peek ptr2 = CHR ''/''"
    by (auto simp: parse_socket_args_def split: if_splits)
  obtain pv ptr3 e3 where s3: "strtol (tl ptr2) 0 = (pv, ptr3, e3)"
    by (cases "strtol (tl ptr2) 0") auto
  with assms s1 e1 p1 s2 e2 p2 have e3: "e3 = 0" and p3: "peek ptr3 = CHR 0x00"
    and res: "d = long_to_int dv" "t = long_to_int tv" "p = long_to_int pv"
    by (auto simp: parse_socket_args_def split: if_splits)
  from strtol_ok_form[OF s1[unfolded e1]] obtain a where a: "s = a @ ptr1" "c_long_literal a dv"
    by blast
  from strtol_ok_form[OF s2[unfolded e2]] obtain b where b: "tl ptr1 = b @ ptr2" "c_long_literal b tv"
    by blast
  from strtol_ok_form[OF s3[unfolded e3]] obtain c where c: "tl ptr2 = c @ ptr3" "c_long_literal c pv"
    by blast
  have "s = a @ ''/'' @ b @ ''/'' @ c @ ptr3"
    using a(1) b(1) c(1) peek_slash[OF p1] peek_slash[OF p2] by (metis append_Cons append_Nil)
  moreover have "ptr3 = [] \<or> hd ptr3 = CHR 0x00" using p3 by (simp add: peek_nul)
  ultimately show ?thesis using a(2) b(2) c(2) res by blast
qed

lemma decimal_literal:
  "decimal ds \<Longrightarrow> int (digits_value ds) \<le> INT_MAX \<Longrightarrow> c_long_literal ds (int (digits_value ds))"
  unfolding c_long_literal_def decimal_def
  by (rule exI[of _ "[]"], rule exI[of _ "[]"], rule exI[of _ ds])
     (simp add: INT_MAX_def LONG_MAX_def LONG_MIN_def)

lemma long_to_int_id: "0 \<le> v \<Longrightarrow> v \<le> INT_MAX \<Longrightarrow> long_to_int v = v"
  by (simp add: long_to_int_def INT_MAX_def)

text \<open>
  Claim C3, as amended. \<^verbatim>\<open>parse_socket_args\<close> returns \<open>NO_ERROR\<close> with \<open>(d, t, p)\<close>
  exactly on the strings \<open>a/b/c\<close> (up to the terminator) in which each of \<open>a\<close>, \<open>b\<close>, \<open>c\<close> is
  what \<^verbatim>\<open>strtol\<close> converts: optional white space, an optional sign and one or more
  decimal digits, with a value in the range of \<^verbatim>\<open>long\<close>; \<open>d\<close>, \<open>t\<close>, \<open>p\<close> are the values
  cut to 32 bits. Every other input (trailing characters after the third number, an empty
  segment, a segment that is not such a number) returns \<open>INVALID_ARGS\<close>. In particular
  three plain decimal numbers up to \<open>INT_MAX\<close> parse to themselves.
\<close>

theorem parse_socket_args_grammar:
  "(parse_socket_args s = Inr (d, t, p) \<longleftrightarrow>
      (\<exists>a b c r dv tv pv. s = a @ ''/'' @ b @ ''/'' @ c @ r \<and> (r = [] \<or> hd r = CHR 0x00) \<and>
           c_long_literal a dv \<and> c_long_literal b tv \<and> c_long_literal c pv \<and>
           d = long_to_int dv \<and> t = long_to_int tv \<and> p = long_to_int pv)) \<and>
   (parse_socket_args s = Inl ERR_INVALID_ARGS \<or> (\<exists>x. parse_socket_args s = Inr x)) \<and>
   (decimal ds \<and> decimal ts \<and> decimal ps \<and> int (digits_value ds) \<le> INT_MAX \<and>
    int (digits_value ts) \<le> INT_MAX \<and> int (digits_value ps) \<le> INT_MAX \<longrightarrow>
      parse_socket_args (ds @ ''/'' @ ts @ ''/'' @ ps)
        = Inr (int (digits_value ds), int (digits_value ts), int (digits_value ps)))"
proof (intro conjI impI iffI)
  assume "parse_socket_args s = Inr (d, t, p)"
  then show "\<exists>a b c r dv tv pv. s = a @ ''/'' @ b @ ''/'' @ c @ r \<and> (r = [] \<or> hd r = CHR 0x00) \<and>
           c_long_literal a dv \<and> c_long_literal b tv \<and> c_long_literal c pv \<and>
           d = long_to_int dv \<and> t = long_to_int tv \<and> p = long_to_int pv"
    by (rule parse_socket_args_form)
next
  assume "\<exists>a b c r dv tv pv. s = a @ ''/'' @ b @ ''/'' @ c @ r \<and> (r = [] \<or> hd r = CHR 0x00) \<and>
           c_long_literal a dv \<and> c_long_literal b tv \<and> c_long_literal c pv \<and>
           d = long_to_int dv \<and> t = long_to_int tv \<and> p = long_to_int pv"
  then obtain a b c r dv tv pv where h: "s = a @ ''/'' @ b @ ''/'' @ c @ r"
      "r = [] \<or> hd r = CHR 0x00" "c_long_literal a dv" "c_long_literal b tv"
      "c_long_literal c pv" "d = long_to_int dv" "t = long_to_int tv" "p = long_to_int pv"
    by blast
  show "parse_socket_args s = Inr (d, t, p)"
    unfolding h(1) h(6-8) by (rule parse_socket_args_accept[OF h(3) h(4) h(5) h(2)])
next
  show "parse_socket_args s = Inl ERR_INVALID_ARGS \<or> (\<exists>x. parse_socket_args s = Inr x)"
    by (rule parse_socket_args_status)
next
  assume h: "decimal ds \<and> decimal ts \<and> decimal ps \<and> int (digits_value ds) \<le> INT_MAX \<and>
    int (digits_value ts) \<le> INT_MAX \<and> int (digits_value ps) \<le> INT_MAX"
  have e: "[] = [] \<or> hd [] = CHR 0x00" by simp
  have "parse_socket_args (ds @ ''/'' @ ts @ ''/'' @ ps @ [])
      = Inr (long_to_int (int (digits_value ds)), long_to_int (int (digits_value ts)),
             long_to_int (int (digits_value ps)))"
    using h by (intro parse_socket_args_accept[OF decimal_literal decimal_literal decimal_literal e]) simp_all
  with h show "parse_socket_args (ds @ ''/'' @ ts @ ''/'' @ ps)
        = Inr (int (digits_value ds), int (digits_value ts), int (digits_value ps))"
    by (simp add: long_to_int_id)
qed

text \<open>
  The claim as stated fails in both directions: a string of three decimal numbers is
  rejected when a number does not fit \<^verbatim>\<open>long\<close>, a number above \<open>INT_MAX\<close> is not
  returned as it is written, and a segment with leading white space is accepted.
\<close>

theorem parse_socket_args_counterexample:
  "decimal ''99999999999999999999'' \<and> decimal ''1'' \<and> decimal ''0'' \<and>
   parse_socket_args ''99999999999999999999/1/0'' = Inl ERR_INVALID_ARGS \<and>
   decimal ''4294967298'' \<and> parse_socket_args ''4294967298/1/0'' = Inr (2, 1, 0) \<and>
   \<not> decimal '' 2'' \<and> parse_socket_args '' 2/1/0'' = Inr (2, 1, 0)"
  by (simp add: decimal_def parse_socket_args_def strtol_def isspace_def isdigit_def
      digits_value_def LONG_MAX_def LONG_MIN_def long_to_int_def peek_def Let_def
      errno_defs status_defs)

theorem parse_socket_args_grammar_witness:
  "decimal ''2'' \<and> decimal ''1'' \<and> decimal ''0'' \<and>
   parse_socket_args ''2/1/0'' = Inr (2, 1, 0)"
proof -
  have h: "decimal ''2'' \<and> decimal ''1'' \<and> decimal ''0'' \<and>
      int (digits_value ''2'') \<le> INT_MAX \<and> int (digits_value ''1'') \<le> INT_MAX \<and>
      int (digits_value ''0'') \<le> INT_MAX"
    by (simp add: decimal_def isdigit_def digits_value_def INT_MAX_def)
  from parse_socket_args_grammar[where ds = "''2''" and ts = "''1''" and ps = "''0''"] h
  have "parse_socket_args (''2'' @ ''/'' @ ''1'' @ ''/'' @ ''0'')
      = Inr (int (digits_value ''2''), int (digits_value ''1''), int (digits_value ''0''))"
    by blast
  then show ?thesis using h by (simp add: digits_value_def)
qed

section \<open>What the helpers leave unchanged\<close>

text \<open>The effect of every helper on each component of the state, as rewrite rules.\<close>

lemma emit_sel [simp]:
  "trace (emit c w) = trace w @ [c]" "ios_tab (emit c w) = ios_tab w"
  "fd_events (emit c w) = fd_events w" "wait_net (emit c w) = wait_net w"
  "wait_socket (emit c w) = wait_socket w" "waitset (emit c w) = waitset w"
  "rwbuf_head (emit c w) = rwbuf_head w" "next_ios (emit c w) = next_ios w"
  "next_buf (emit c w) = next_buf w"
  by (simp_all add: emit_def)

lemma upd_ios_sel [simp]:
  "trace (upd_ios p f w) = trace w"
  "ios_tab (upd_ios p f w) = (ios_tab w)(p := map_option f (ios_tab w p))"
  "fd_events (upd_ios p f w) = fd_events w" "wait_net (upd_ios p f w) = wait_net w"
  "wait_socket (upd_ios p f w) = wait_socket w" "waitset (upd_ios p f w) = waitset w"
  "rwbuf_head (upd_ios p f w) = rwbuf_head w" "next_ios (upd_ios p f w) = next_ios w"
  "next_buf (upd_ios p f w) = next_buf w"
  by (simp_all add: upd_ios_def)

lemma fd_event_set_sel [simp]:
  "trace (fd_event_set fd ev w) = trace w" "ios_tab (fd_event_set fd ev w) = ios_tab w"
  "fd_events (fd_event_set fd ev w) = (fd_events w)(fd := fd_events w fd \<union> ev)"
  "wait_net (fd_event_set fd ev w) = wait_net w"
  "wait_socket (fd_event_set fd ev w) = wait_socket w"
  "waitset (fd_event_set fd ev w) = waitset w"
  "rwbuf_head (fd_event_set fd ev w) = rwbuf_head w"
  by (simp_all add: fd_event_set_def)

lemma fd_event_clear_sel [simp]:
  "trace (fd_event_clear fd ev w) = trace w" "ios_tab (fd_event_clear fd ev w) = ios_tab w"
  "fd_events (fd_event_clear fd ev w) = (fd_events w)(fd := fd_events w fd - ev)"
  "wait_net (fd_event_clear fd ev w) = wait_net w"
  "wait_socket (fd_event_clear fd ev w) = wait_socket w"
  "waitset (fd_event_clear fd ev w) = waitset w"
  "rwbuf_head (fd_event_clear fd ev w) = rwbuf_head w"
  by (simp_all add: fd_event_clear_def)

lemma wait_queue_put_sel [simp]:
  "trace (wait_queue_put q fd rq w) = trace w" "ios_tab (wait_queue_put q fd rq w) = ios_tab w"
  "fd_events (wait_queue_put q fd rq w) = fd_events w"
  "waitset (wait_queue_put q fd rq w) = waitset w"
  "rwbuf_head (wait_queue_put q fd rq w) = rwbuf_head w"
  "wait_net (wait_queue_put q fd rq w) = (if q = WAIT_NET then wait_net w @ [(fd, rq)] else wait_net w)"
  "wait_socket (wait_queue_put q fd rq w) =
     (if q = WAIT_SOCKET then wait_socket w @ [(fd, rq)] else wait_socket w)"
  by (cases q; simp add: wait_queue_put_def)+

lemma wait_queue_discard_sel [simp]:
  "trace (wait_queue_discard q fd w) = trace w" "ios_tab (wait_queue_discard q fd w) = ios_tab w"
  "fd_events (wait_queue_discard q fd w) = fd_events w"
  "waitset (wait_queue_discard q fd w) = waitset w"
  "rwbuf_head (wait_queue_discard q fd w) = rwbuf_head w"
  "wait_net (wait_queue_discard q fd w) =
     (if q = WAIT_NET then filter (\<lambda>e. fst e \<noteq> fd) (wait_net w) else wait_net w)"
  "wait_socket (wait_queue_discard q fd w) =
     (if q = WAIT_SOCKET then filter (\<lambda>e. fst e \<noteq> fd) (wait_socket w) else wait_socket w)"
  by (cases q; simp add: wait_queue_discard_def)+

lemma put_rwbuf_sel [simp]:
  "trace (put_rwbuf b w) = trace w" "ios_tab (put_rwbuf b w) = ios_tab w"
  "fd_events (put_rwbuf b w) = fd_events w" "wait_net (put_rwbuf b w) = wait_net w"
  "wait_socket (put_rwbuf b w) = wait_socket w" "waitset (put_rwbuf b w) = waitset w"
  by (cases b; simp add: put_rwbuf_def)+

lemma iostate_release_sel [simp]:
  "trace (iostate_release p w) = trace w" "fd_events (iostate_release p w) = fd_events w"
  "wait_net (iostate_release p w) = wait_net w"
  "wait_socket (iostate_release p w) = wait_socket w"
  "waitset (iostate_release p w) = waitset w"
  by (simp_all add: iostate_release_def split: option.splits)

lemma iostate_acquire_sel [simp]:
  "trace (iostate_acquire p w) = trace w" "fd_events (iostate_acquire p w) = fd_events w"
  "wait_net (iostate_acquire p w) = wait_net w"
  "wait_socket (iostate_acquire p w) = wait_socket w"
  "waitset (iostate_acquire p w) = waitset w"
  by (simp_all add: iostate_acquire_def)

lemma iostate_alloc_sel [simp]:
  "trace (snd (iostate_alloc w)) = trace w" "fd_events (snd (iostate_alloc w)) = fd_events w"
  "wait_net (snd (iostate_alloc w)) = wait_net w"
  "wait_socket (snd (iostate_alloc w)) = wait_socket w"
  "waitset (snd (iostate_alloc w)) = waitset w"
  by (simp_all add: iostate_alloc_def)

lemma socket_signals_change_sel [simp]:
  "trace (socket_signals_change en p old new w) = trace w"
  "fd_events (socket_signals_change en p old new w) = fd_events w"
  "wait_net (socket_signals_change en p old new w) = wait_net w"
  "wait_socket (socket_signals_change en p old new w) = wait_socket w"
  "rwbuf_head (socket_signals_change en p old new w) = rwbuf_head w"
  by (simp_all add: socket_signals_change_def mx_waitset_add_def mx_waitset_remove_def Let_def
      split: option.splits)

lemma socket_signals_set_sel [simp]:
  "trace (socket_signals_set en p sigs w) = trace w"
  "fd_events (socket_signals_set en p sigs w) = fd_events w"
  "wait_net (socket_signals_set en p sigs w) = wait_net w"
  "wait_socket (socket_signals_set en p sigs w) = wait_socket w"
  "rwbuf_head (socket_signals_set en p sigs w) = rwbuf_head w"
  by (simp_all add: socket_signals_set_def split: option.splits)

lemma socket_signals_change_core [simp]:
  "ios_core (socket_signals_change en p old new w) q = ios_core w q"
  by (simp add: socket_signals_change_def mx_waitset_add_def mx_waitset_remove_def Let_def
      ios_core_def split: option.splits)

lemma socket_signals_set_core [simp]:
  "ios_core (socket_signals_set en p sigs w) q = ios_core w q"
  by (simp add: socket_signals_set_def split: option.splits)

lemma ios_core_fields:
  assumes "ios_core w' q = ios_core w q"
  shows "map_option sockfd (ios_tab w' q) = map_option sockfd (ios_tab w q)"
    and "map_option handle_type (ios_tab w' q) = map_option handle_type (ios_tab w q)"
    and "map_option data_h (ios_tab w' q) = map_option data_h (ios_tab w q)"
    and "map_option refcount (ios_tab w' q) = map_option refcount (ios_tab w q)"
    and "map_option last_errno (ios_tab w' q) = map_option last_errno (ios_tab w q)"
proof -
  have "map_option (sockfd \<circ> (\<lambda>i. i\<lparr>watching_signals := 0\<rparr>)) (ios_tab w' q) =
        map_option (sockfd \<circ> (\<lambda>i. i\<lparr>watching_signals := 0\<rparr>)) (ios_tab w q)"
    using arg_cong[OF assms, of "map_option sockfd"]
    by (simp add: ios_core_def option.map_comp)
  then show "map_option sockfd (ios_tab w' q) = map_option sockfd (ios_tab w q)"
    by (simp add: comp_def)
  have "map_option (handle_type \<circ> (\<lambda>i. i\<lparr>watching_signals := 0\<rparr>)) (ios_tab w' q) =
        map_option (handle_type \<circ> (\<lambda>i. i\<lparr>watching_signals := 0\<rparr>)) (ios_tab w q)"
    using arg_cong[OF assms, of "map_option handle_type"]
    by (simp add: ios_core_def option.map_comp)
  then show "map_option handle_type (ios_tab w' q) = map_option handle_type (ios_tab w q)"
    by (simp add: comp_def)
  have "map_option (data_h \<circ> (\<lambda>i. i\<lparr>watching_signals := 0\<rparr>)) (ios_tab w' q) =
        map_option (data_h \<circ> (\<lambda>i. i\<lparr>watching_signals := 0\<rparr>)) (ios_tab w q)"
    using arg_cong[OF assms, of "map_option data_h"]
    by (simp add: ios_core_def option.map_comp)
  then show "map_option data_h (ios_tab w' q) = map_option data_h (ios_tab w q)"
    by (simp add: comp_def)
  have "map_option (refcount \<circ> (\<lambda>i. i\<lparr>watching_signals := 0\<rparr>)) (ios_tab w' q) =
        map_option (refcount \<circ> (\<lambda>i. i\<lparr>watching_signals := 0\<rparr>)) (ios_tab w q)"
    using arg_cong[OF assms, of "map_option refcount"]
    by (simp add: ios_core_def option.map_comp)
  then show "map_option refcount (ios_tab w' q) = map_option refcount (ios_tab w q)"
    by (simp add: comp_def)
  have "map_option (last_errno \<circ> (\<lambda>i. i\<lparr>watching_signals := 0\<rparr>)) (ios_tab w' q) =
        map_option (last_errno \<circ> (\<lambda>i. i\<lparr>watching_signals := 0\<rparr>)) (ios_tab w q)"
    using arg_cong[OF assms, of "map_option last_errno"]
    by (simp add: ios_core_def option.map_comp)
  then show "map_option last_errno (ios_tab w' q) = map_option last_errno (ios_tab w q)"
    by (simp add: comp_def)
qed

lemma schedule_r_sel [simp]:
  "trace (schedule_r p w) = trace w"
  "ios_tab (schedule_r p w) = ios_tab w"
  "waitset (schedule_r p w) = waitset w"
  "wait_socket (schedule_r p w) = wait_socket w"
  "wait_net (schedule_r p w) =
     (case ios_tab w p of None \<Rightarrow> wait_net w
      | Some ios \<Rightarrow> wait_net w @ [(sockfd ios, request_pack MXRIO_READ 0 None p)])"
  "fd_events (schedule_r p w) =
     (case ios_tab w p of None \<Rightarrow> fd_events w
      | Some ios \<Rightarrow> (fd_events w)(sockfd ios := fd_events w (sockfd ios) \<union> {EVENT_READ}))"
  by (simp_all add: schedule_r_def split: option.splits)

lemma schedule_sigconn_r_sel [simp]:
  "trace (schedule_sigconn_r p w) = trace w"
  "ios_tab (schedule_sigconn_r p w) = ios_tab w"
  "waitset (schedule_sigconn_r p w) = waitset w"
  "wait_socket (schedule_sigconn_r p w) = wait_socket w"
  by (simp_all add: schedule_sigconn_r_def split: option.splits)

lemma schedule_sigconn_r_queue [simp]:
  "wait_net (schedule_sigconn_r p w) =
     (case ios_tab w p of None \<Rightarrow> wait_net w
      | Some ios \<Rightarrow> wait_net w @ [(sockfd ios, request_pack IO_SIGCONN_R 0 None p)])"
  "fd_events (schedule_sigconn_r p w) =
     (case ios_tab w p of None \<Rightarrow> fd_events w
      | Some ios \<Rightarrow> (fd_events w)(sockfd ios := fd_events w (sockfd ios) \<union> {EVENT_READ}))"
  by (simp_all add: schedule_sigconn_r_def split: option.splits)

lemma create_handles_sel [simp]:
  "fd_events (snd (snd (create_handles en p out w))) = fd_events w"
  "wait_net (snd (snd (create_handles en p out w))) = wait_net w"
  "wait_socket (snd (snd (create_handles en p out w))) = wait_socket w"
  "waitset (snd (snd (create_handles en p out w))) = waitset w"
  by (simp_all add: create_handles_def Let_def split_beta mx_handle_close_def)

lemma schedule_w_sel [simp]:
  "trace (schedule_w en p w) = trace w"
  "wait_net (schedule_w en p w) = wait_net w"
  "fd_events (schedule_w en p w) = fd_events w"
  "wait_socket (schedule_w en p w) =
     (case ios_tab w p of None \<Rightarrow> wait_socket w
      | Some ios \<Rightarrow> wait_socket w @ [(sockfd ios, request_pack MXRIO_WRITE 0 None p)])"
  by (simp_all add: schedule_w_def split: option.splits)

lemma schedule_rw_sel [simp]:
  "trace (schedule_rw en p w) =
     (case ios_tab w p of None \<Rightarrow> trace w
      | Some ios \<Rightarrow> trace w @ (if handle_type ios = HANDLE_TYPE_STREAM
                      then [Mx_object_signal_peer (data_h ios) 0 MXSIO_SIGNAL_CONNECTED] else []))"
  "wait_net (schedule_rw en p w) =
     (case ios_tab w p of None \<Rightarrow> wait_net w
      | Some ios \<Rightarrow> wait_net w @ [(sockfd ios, request_pack MXRIO_READ 0 None p)])"
  "fd_events (schedule_rw en p w) =
     (case ios_tab w p of None \<Rightarrow> fd_events w
      | Some ios \<Rightarrow> (fd_events w)(sockfd ios := fd_events w (sockfd ios) \<union> {EVENT_READ}))"
  "wait_socket (schedule_rw en p w) =
     (case ios_tab w p of None \<Rightarrow> wait_socket w
      | Some ios \<Rightarrow> wait_socket w @ [(sockfd ios, request_pack MXRIO_WRITE 0 None p)])"
  by (simp_all add: schedule_rw_def Let_def mx_object_signal_peer_def split: option.splits)

section \<open>The wait-set invariant\<close>

lemma change_watched:
  assumes "watched p h w" "h \<noteq> MX_HANDLE_INVALID" "add_succeeds en p"
    and "ios_tab w p = Some ios" "old = watching_signals ios"
  shows "watched p h (socket_signals_change en p old new w)"
proof -
  have ok: "\<not> waitset_add_r en p new < 0"
    using assms(3) by (simp add: add_succeeds_def not_less)
  show ?thesis
    using assms(1,2,4,5) ok
    by (auto simp: watched_def socket_signals_change_def mx_waitset_add_def mx_waitset_remove_def
        upd_ios_def status_defs Let_def split: option.splits if_splits)
qed

lemma set_watched:
  assumes "watched p h w" "h \<noteq> MX_HANDLE_INVALID" "add_succeeds en p"
  shows "watched p h (socket_signals_set en p sigs w)"
proof (cases "ios_tab w p")
  case None
  with assms show ?thesis by (simp add: watched_def)
next
  case (Some ios)
  with assms change_watched[OF assms Some refl] show ?thesis
    by (simp add: socket_signals_set_def)
qed

lemma clear_watched:
  assumes "watched p h w" "h \<noteq> MX_HANDLE_INVALID" "add_succeeds en p"
  shows "watched p h (socket_signals_clear en p sigs w)"
proof (cases "ios_tab w p")
  case None
  with assms show ?thesis by (simp add: watched_def)
next
  case (Some ios)
  with assms change_watched[OF assms Some refl] show ?thesis
    by (simp add: socket_signals_clear_def)
qed

lemma run_watched:
  assumes "watched p h w" "h \<noteq> MX_HANDLE_INVALID" "\<forall>c \<in> set cs. add_succeeds (fst c) p"
  shows "watched p h (run_signal_calls p cs w)"
  using assms
proof (induction p cs w rule: run_signal_calls.induct)
  case (1 p w)
  then show ?case by simp
next
  case (2 p en sigs cs w)
  then show ?case by (simp add: set_watched)
next
  case (3 p en sigs cs w)
  then show ?case by (simp add: clear_watched)
qed

lemma socket_signals_keep_P1:
  assumes "ios_tab w p = Some ios" "data_h ios \<noteq> MX_HANDLE_INVALID" "P1 p w"
    and "\<forall>c \<in> set cs. add_succeeds (fst c) p"
  shows "P1 p (run_signal_calls p cs w)"
proof -
  have "watched p (data_h ios) w" using assms(1,3) by (simp add: watched_def P1_def)
  then have "watched p (data_h ios) (run_signal_calls p cs w)"
    using assms(2,4) by (rule run_watched)
  then show ?thesis by (auto simp: watched_def P1_def split: option.splits)
qed

text \<open>
  Claim C7: for every live IOState, after any sequence of \<^verbatim>\<open>socket_signals_set\<close> and
  \<^verbatim>\<open>socket_signals_clear\<close> calls, the wait-set has an entry keyed by the IOState if and
  only if \<open>watching_signals\<close> is not empty. The lemma above proves it for the runs in
  which \<^verbatim>\<open>mx_waitset_add\<close> does not fail. The code breaks it otherwise: the stream
  IOState of \<open>world1\<close> watches nothing; \<open>READABLE\<close> is set, then \<open>WRITABLE\<close> while the kernel
  refuses the add. \<^verbatim>\<open>socket_signals_change\<close> has removed the old entry and returns
  before it updates \<open>watching_signals\<close>: the IOState still watches \<open>READABLE\<close> and the
  wait-set has no entry for it.
\<close>

theorem socket_signals_add_failure:
  "P1 1 world1 \<and>
   map_option watching_signals (ios_tab (run_signal_calls 1 add_fails_calls world1) 1)
     = Some MX_SOCKET_READABLE \<and>
   waitset (run_signal_calls 1 add_fails_calls world1) 1 = None \<and>
   \<not> P1 1 (run_signal_calls 1 add_fails_calls world1)"
  by (simp add: P1_def example_defs add_fails_calls_def env_no_memory_def
      socket_signals_set_def socket_signals_change_def
      mx_waitset_add_def mx_waitset_remove_def upd_ios_def signal_defs status_defs
      MX_HANDLE_INVALID_def Let_def)

section \<open>The connection pseudo-op SIGCONN_W\<close>

text \<open>
  Claim C1, as amended. When \<^verbatim>\<open>SIGCONN_W\<close> fires for a stream IOState,
  \<^verbatim>\<open>do_sigconn_w\<close> first sets the \<open>OUTGOING\<close> user signal on the data endpoint, whatever
  \<^verbatim>\<open>SO_ERROR\<close> will be, and then reads \<^verbatim>\<open>SO_ERROR\<close>. Read and write are scheduled
  (with the \<open>CONNECTED\<close> signal) exactly when the read succeeds with the value zero; for
  every other value nothing is scheduled: the queues, the event masks and the wait-set stay
  as they are. The handler returns \<open>NO_ERROR\<close> in every case.
\<close>

theorem do_sigconn_w_stream:
  assumes "ios_tab w p = Some ios" "handle_type ios = HANDLE_TYPE_STREAM"
    and "net_getsockopt_r en = (ret, e, val)"
  shows "\<exists>w'. do_sigconn_w en p w = Some (NO_ERROR, w') \<and>
           (if (if ret < 0 then e else 0) = 0 \<and> val = 0
            then trace w' = trace w @
                   [Mx_object_signal_peer (data_h ios) 0 MXSIO_SIGNAL_OUTGOING,
                    Net_getsockopt_SO_ERROR (sockfd ios),
                    Mx_object_signal_peer (data_h ios) 0 MXSIO_SIGNAL_CONNECTED] \<and>
                 wait_net w' = wait_net w @ [(sockfd ios, request_pack MXRIO_READ 0 None p)] \<and>
                 wait_socket w' = wait_socket w @ [(sockfd ios, request_pack MXRIO_WRITE 0 None p)] \<and>
                 fd_events w' = (fd_events w)(sockfd ios := fd_events w (sockfd ios) \<union> {EVENT_READ})
            else trace w' = trace w @
                   [Mx_object_signal_peer (data_h ios) 0 MXSIO_SIGNAL_OUTGOING,
                    Net_getsockopt_SO_ERROR (sockfd ios)] \<and>
                 wait_net w' = wait_net w \<and> wait_socket w' = wait_socket w \<and>
                 fd_events w' = fd_events w \<and> waitset w' = waitset w)"
  using assms
  by (simp add: do_sigconn_w_def Let_def mx_object_signal_peer_def)

text \<open>
  The claim as stated fails: with \<^verbatim>\<open>SO_ERROR = 111\<close> the \<open>OUTGOING\<close> signal is set all
  the same.
\<close>

theorem do_sigconn_w_counterexample:
  "ios_tab world1 1 = Some stream_ios \<and> handle_type stream_ios = HANDLE_TYPE_STREAM \<and>
   data_h stream_ios = 7 \<and>
   do_sigconn_w (env_ok\<lparr>net_getsockopt_r := (0, 0, 111)\<rparr>) 1 world1
     = Some (NO_ERROR, world1_refused) \<and>
   Mx_object_signal_peer 7 0 MXSIO_SIGNAL_OUTGOING \<in> set (trace world1_refused)"
  by (simp add: do_sigconn_w_def Let_def mx_object_signal_peer_def example_defs
      world1_refused_def emit_def upd_ios_def)

theorem do_sigconn_w_stream_witness:
  "ios_tab world1 1 = Some stream_ios \<and> handle_type stream_ios = HANDLE_TYPE_STREAM \<and>
   net_getsockopt_r env_ok = (0, 0, 0) \<and>
   (\<exists>w'. do_sigconn_w env_ok 1 world1 = Some (NO_ERROR, w') \<and>
      trace w' = [Mx_object_signal_peer 7 0 MXSIO_SIGNAL_OUTGOING, Net_getsockopt_SO_ERROR 5,
                  Mx_object_signal_peer 7 0 MXSIO_SIGNAL_CONNECTED] \<and>
      wait_net w' = [(5, request_pack MXRIO_READ 0 None 1)] \<and>
      wait_socket w' = [(5, request_pack MXRIO_WRITE 0 None 1)])"
proof -
  have a: "ios_tab world1 1 = Some stream_ios" by (simp add: example_defs)
  have b: "handle_type stream_ios = HANDLE_TYPE_STREAM" by (simp add: example_defs)
  have c: "net_getsockopt_r env_ok = (0, 0, 0)" by (simp add: example_defs)
  have d: "trace world1 = []" "wait_net world1 = []" "wait_socket world1 = []"
    "data_h stream_ios = 7" "sockfd stream_ios = 5"
    by (simp_all add: example_defs)
  from do_sigconn_w_stream[OF a b c] obtain w' where
    "do_sigconn_w env_ok 1 world1 = Some (NO_ERROR, w')"
    "trace w' = trace world1 @
                   [Mx_object_signal_peer (data_h stream_ios) 0 MXSIO_SIGNAL_OUTGOING,
                    Net_getsockopt_SO_ERROR (sockfd stream_ios),
                    Mx_object_signal_peer (data_h stream_ios) 0 MXSIO_SIGNAL_CONNECTED]"
    "wait_net w' = wait_net world1 @ [(sockfd stream_ios, request_pack MXRIO_READ 0 None 1)]"
    "wait_socket w' = wait_socket world1 @ [(sockfd stream_ios, request_pack MXRIO_WRITE 0 None 1)]"
    by auto
  with a b c d show ?thesis by simp
qed

section \<open>accept\<close>

lemma do_accept_live: "ios_tab w p = Some ios \<Longrightarrow> \<not> Option.is_none (do_accept en p out w)"
  by (simp add: do_accept_def Let_def split_beta)

lemma do_accept_failure:
  assumes "ios_tab w p = Some ios" "net_accept_r en = (ret, e)" "ret < 0" "e \<noteq> 0"
  shows "do_accept en p out w =
           Some (errno_to_status e, out,
                 upd_ios p (\<lambda>i. i\<lparr>last_errno := e\<rparr>) (emit (Net_accept (sockfd ios)) w))"
  using assms by (simp add: do_accept_def Let_def)

lemma do_accept_events:
  assumes "ios_tab w p = Some ios" "net_accept_r en = (ret, e)" "\<not> (ret < 0 \<and> e \<noteq> 0)"
    "do_accept en p out w = Some res"
  shows "EVENT_READ \<in> fd_events (snd (snd res)) (sockfd ios)"
  using assms
  by (clarsimp simp add: do_accept_def Let_def split_beta mx_object_signal_peer_def
      split: option.splits if_splits)

lemma do_accept_queue:
  assumes "ios_tab w p = Some ios" "net_accept_r en = (ret, e)" "\<not> (ret < 0 \<and> e \<noteq> 0)"
    "do_accept en p out w = Some res"
  shows "\<exists>rest. wait_net (snd (snd res)) =
                     wait_net w @ (sockfd ios, request_pack IO_SIGCONN_R 0 None p) # rest \<and>
                   list_all (\<lambda>q. rq_op (snd q) = MXRIO_READ) rest"
  using assms
  by (clarsimp simp add: do_accept_def Let_def split_beta mx_object_signal_peer_def request_pack_def
      split: option.splits if_splits)

text \<open>
  Claim C2, as amended. When the backend's accept fails with \<open>EAGAIN\<close>, which is
  \<open>EWOULDBLOCK\<close>, \<^verbatim>\<open>do_accept\<close> records the errno in \<open>last_errno\<close> and returns
  \<open>SHOULD_WAIT\<close> at once. It does not rearm \<^verbatim>\<open>SIGCONN_R\<close>: the event masks, both
  queues and the wait-set are left as they are, and so it is for every other errno of a
  failed accept, whose status is the one the errno maps to. \<^verbatim>\<open>SIGCONN_R\<close> is rearmed
  exactly when the accept reports no error: then \<open>EVENT_READ\<close> is armed on the listening
  socket and one \<^verbatim>\<open>SIGCONN_R\<close> request for it joins the net-wait queue, whatever becomes
  of the new connection afterwards; the only request that can follow it is the read
  scheduled for the new connection.
\<close>

theorem do_accept_rearm:
  assumes "ios_tab w p = Some ios" "net_accept_r en = (ret, e)"
  shows "\<exists>r out1 w'. do_accept en p out w = Some (r, out1, w') \<and>
           (ret < 0 \<and> e \<noteq> 0 \<longrightarrow>
              r = errno_to_status e \<and>
              (e = EWOULDBLOCK \<or> e = EAGAIN \<longrightarrow> r = ERR_SHOULD_WAIT) \<and>
              out1 = out \<and>
              trace w' = trace w @ [Net_accept (sockfd ios)] \<and>
              ios_tab w' = (ios_tab w)(p \<mapsto> ios\<lparr>last_errno := e\<rparr>) \<and>
              fd_events w' = fd_events w \<and> wait_net w' = wait_net w \<and>
              wait_socket w' = wait_socket w \<and> waitset w' = waitset w) \<and>
           (\<not> (ret < 0 \<and> e \<noteq> 0) \<longrightarrow>
              EVENT_READ \<in> fd_events w' (sockfd ios) \<and>
              (\<exists>rest. wait_net w' =
                        wait_net w @ (sockfd ios, request_pack IO_SIGCONN_R 0 None p) # rest \<and>
                      list_all (\<lambda>q. rq_op (snd q) = MXRIO_READ) rest))"
proof (cases "ret < 0 \<and> e \<noteq> 0")
  case True
  then have f: "ret < 0" "e \<noteq> 0" by simp_all
  have s: "errno_to_status EWOULDBLOCK = ERR_SHOULD_WAIT" "errno_to_status EAGAIN = ERR_SHOULD_WAIT"
    by (simp_all add: errno_to_status_def errno_defs)
  from f do_accept_failure[OF assms f, of out] s show ?thesis
    using assms(1) by simp
next
  case False
  from do_accept_live[OF assms(1), of en out] obtain r out1 w'
    where d: "do_accept en p out w = Some (r, out1, w')"
    by (cases "do_accept en p out w") (auto intro: prod_cases3)
  from do_accept_events[OF assms False d] do_accept_queue[OF assms False d] d False
  show ?thesis by auto
qed

text \<open>
  The claim as stated fails: in \<open>world1\<close> no event is armed and the net-wait queue is
  empty, and they are so after the accept that would block.
\<close>

theorem do_accept_counterexample:
  "ios_tab world1 1 = Some stream_ios \<and> sockfd stream_ios = 5 \<and>
   do_accept (env_ok\<lparr>net_accept_r := (- 1, EAGAIN)\<rparr>) 1 (0, 0, 0) world1
     = Some (ERR_SHOULD_WAIT, (0, 0, 0), world1_would_block) \<and>
   EVENT_READ \<notin> fd_events world1_would_block 5 \<and>
   wait_net world1_would_block = []"
  by (simp add: do_accept_def Let_def emit_def upd_ios_def errno_to_status_def errno_defs
      status_defs example_defs world1_would_block_def)

theorem do_accept_rearm_witness:
  "ios_tab world1 1 = Some stream_ios \<and>
   net_accept_r (env_ok\<lparr>net_accept_r := (- 1, EAGAIN)\<rparr>) = (- 1, EAGAIN) \<and>
   (- 1 :: int) < 0 \<and> EAGAIN \<noteq> 0 \<and>
   (\<exists>w'. do_accept (env_ok\<lparr>net_accept_r := (- 1, EAGAIN)\<rparr>) 1 (0, 0, 0) world1
            = Some (ERR_SHOULD_WAIT, (0, 0, 0), w') \<and>
         trace w' = [Net_accept 5] \<and> wait_net w' = [] \<and> fd_events w' 5 = {}) \<and>
   net_accept_r env_ok = (4, 0) \<and> \<not> ((4 :: int) < 0 \<and> (0 :: int) \<noteq> 0) \<and>
   (\<exists>r out1 w' rest. do_accept env_ok 1 (0, 0, 0) world1 = Some (r, out1, w') \<and>
         EVENT_READ \<in> fd_events w' 5 \<and>
         wait_net w' = (5, request_pack IO_SIGCONN_R 0 None 1) # rest)"
proof -
  have a: "ios_tab world1 1 = Some stream_ios" by (simp add: example_defs)
  have b: "net_accept_r (env_ok\<lparr>net_accept_r := (- 1, EAGAIN)\<rparr>) = (- 1, EAGAIN)" by simp
  have c: "net_accept_r env_ok = (4, 0)" by (simp add: env_ok_def)
  have n: "EAGAIN \<noteq> 0" by (simp add: errno_defs)
  have e: "trace world1 = []" "wait_net world1 = []" "fd_events world1 5 = {}"
    "sockfd stream_ios = 5"
    by (simp_all add: example_defs)
  from do_accept_rearm[OF a b, of "(0, 0, 0)"] n obtain r out1 w' where
    "do_accept (env_ok\<lparr>net_accept_r := (- 1, EAGAIN)\<rparr>) 1 (0, 0, 0) world1 = Some (r, out1, w')"
    "r = ERR_SHOULD_WAIT" "out1 = (0, 0, 0)"
    "trace w' = trace world1 @ [Net_accept (sockfd stream_ios)]"
    "fd_events w' = fd_events world1" "wait_net w' = wait_net world1"
    by auto
  with e have x: "\<exists>w'. do_accept (env_ok\<lparr>net_accept_r := (- 1, EAGAIN)\<rparr>) 1 (0, 0, 0) world1
            = Some (ERR_SHOULD_WAIT, (0, 0, 0), w') \<and>
         trace w' = [Net_accept 5] \<and> wait_net w' = [] \<and> fd_events w' 5 = {}"
    by auto
  from do_accept_rearm[OF a c, of "(0, 0, 0)"] e have y:
    "\<exists>r out1 w' rest. do_accept env_ok 1 (0, 0, 0) world1 = Some (r, out1, w') \<and>
         EVENT_READ \<in> fd_events w' 5 \<and>
         wait_net w' = (5, request_pack IO_SIGCONN_R 0 None 1) # rest"
    by auto
  from a b c n x y show ?thesis by simp
qed

section \<open>CLOSE\<close>

lemma do_close_sockfd:
  assumes "do_close p w = Some (r, w1)" "ios_tab w1 p = Some ios1"
  shows "sockfd ios1 < 0"
  using assms
  by (auto simp: do_close_def Let_def iostate_release_def net_close_def
      split: option.splits if_splits)

text \<open>
  Claim C6, as amended. When \<^verbatim>\<open>CLOSE\<close> has run and the IOState is still allocated, a
  second \<^verbatim>\<open>CLOSE\<close> calls no backend close and leaves the socket fd (negative), the event
  masks and both wait queues as the first left them, but it releases one more reference: the
  count goes down by one again, and when it reaches zero the IOState is freed and its
  buffers return to the pool.
\<close>

theorem do_close_again:
  assumes "do_close p w = Some (r, w1)" "ios_tab w1 p = Some ios1"
  shows "\<exists>w2. do_close p w1 = Some (NO_ERROR, w2) \<and>
           sockfd ios1 < 0 \<and>
           trace w2 = trace w1 \<and> fd_events w2 = fd_events w1 \<and>
           wait_net w2 = wait_net w1 \<and> wait_socket w2 = wait_socket w1 \<and>
           (if refcount ios1 - 1 = 0
            then ios_tab w2 = (ios_tab w1)(p := None) \<and>
                 rwbuf_head w2 = rwbuf_head (put_rwbuf (wbuf ios1) (put_rwbuf (rbuf ios1) w1))
            else ios_tab w2 = (ios_tab w1)(p \<mapsto> ios1\<lparr>refcount := refcount ios1 - 1\<rparr>) \<and>
                 rwbuf_head w2 = rwbuf_head w1)"
proof -
  have neg: "sockfd ios1 < 0" by (rule do_close_sockfd[OF assms])
  then show ?thesis
    using assms(2)
    by (simp add: do_close_def Let_def iostate_release_def)
qed

text \<open>
  The claim as stated fails: the second \<^verbatim>\<open>CLOSE\<close> of an IOState with two references
  frees it and changes the buffer pool.
\<close>

theorem do_close_counterexample:
  "do_close 1 world_c0 = Some (NO_ERROR, world_c1) \<and>
   do_close 1 world_c1 = Some (NO_ERROR, world_c2) \<and>
   map_option refcount (ios_tab world_c1 1) = Some 1 \<and> rwbuf_head world_c1 = [] \<and>
   ios_tab world_c2 1 = None \<and> rwbuf_head world_c2 = [3] \<and>
   world_c2 \<noteq> world_c1"
proof -
  have a: "do_close 1 world_c0 = Some (NO_ERROR, world_c1)"
    by (simp add: do_close_def Let_def iostate_release_def net_close_def emit_def upd_ios_def
        fd_event_clear_def wait_queue_discard_def put_rwbuf_def EVENT_ALL_def
        world_c0_def world_c1_def closing_ios_def example_defs fun_eq_iff)
  have b: "do_close 1 world_c1 = Some (NO_ERROR, world_c2)"
    by (simp add: do_close_def Let_def iostate_release_def upd_ios_def put_rwbuf_def
        world_c0_def world_c1_def world_c2_def closing_ios_def example_defs fun_eq_iff)
  have c: "map_option refcount (ios_tab world_c1 1) = Some 1" "rwbuf_head world_c1 = []"
    "ios_tab world_c2 1 = None" "rwbuf_head world_c2 = [3]"
    by (simp_all add: world_c0_def world_c1_def world_c2_def closing_ios_def example_defs)
  from c(2) c(4) have "world_c2 \<noteq> world_c1" by auto
  with a b c show ?thesis by simp
qed

theorem do_close_again_witness:
  "do_close 1 world_c0 = Some (NO_ERROR, world_c1) \<and>
   ios_tab world_c1 1 = Some (closing_ios\<lparr>sockfd := - 1, refcount := 1\<rparr>) \<and>
   (\<exists>w2. do_close 1 world_c1 = Some (NO_ERROR, w2) \<and> ios_tab w2 1 = None \<and>
         trace w2 = [Net_close 5] \<and> rwbuf_head w2 = [3])"
proof -
  have a: "do_close 1 world_c0 = Some (NO_ERROR, world_c1)"
    by (simp add: do_close_def Let_def iostate_release_def net_close_def emit_def upd_ios_def
        fd_event_clear_def wait_queue_discard_def put_rwbuf_def EVENT_ALL_def
        world_c0_def world_c1_def closing_ios_def example_defs fun_eq_iff)
  have b: "ios_tab world_c1 1 = Some (closing_ios\<lparr>sockfd := - 1, refcount := 1\<rparr>)"
    by (simp add: world_c1_def world_c0_def)
  have c: "trace world_c1 = [Net_close 5]" "rwbuf_head world_c1 = []"
    by (simp_all add: world_c1_def world_c0_def example_defs)
  from do_close_again[OF a b] obtain w2 where
    "do_close 1 world_c1 = Some (NO_ERROR, w2)" "trace w2 = trace world_c1"
    "ios_tab w2 = (ios_tab world_c1)(1 := None)"
    "rwbuf_head w2 = rwbuf_head (put_rwbuf (wbuf (closing_ios\<lparr>sockfd := - 1, refcount := 1\<rparr>))
        (put_rwbuf (rbuf (closing_ios\<lparr>sockfd := - 1, refcount := 1\<rparr>)) world_c1))"
    by auto
  with a b c show ?thesis
    by (simp add: put_rwbuf_def closing_ios_def example_defs)
qed

section \<open>OPEN\<close>

lemma quiet_refl [simp]: "quiet w w"
  by (simp add: quiet_def)

lemma quiet_trans: "quiet w w1 \<Longrightarrow> quiet w1 w2 \<Longrightarrow> quiet w w2"
  by (auto simp: quiet_def)

lemma quiet_same: "trace w' = trace w \<Longrightarrow> quiet w w'"
  by (simp add: quiet_def)

lemma quiet_emit: "\<not> is_channel_write c \<Longrightarrow> quiet w w1 \<Longrightarrow> quiet w (emit c w1)"
  by (auto simp: quiet_def)

lemma quiet_frame [simp]:
  "quiet w (upd_ios p f w1) = quiet w w1"
  "quiet w (fd_event_set fd ev w1) = quiet w w1"
  "quiet w (iostate_release p w1) = quiet w w1"
  "quiet w (iostate_acquire p w1) = quiet w w1"
  "quiet w (socket_signals_set en p sigs w1) = quiet w w1"
  "quiet w (schedule_w en p w1) = quiet w w1"
  "quiet w (schedule_r p w1) = quiet w w1"
  "quiet w (schedule_sigconn_r p w1) = quiet w w1"
  "quiet w (snd (iostate_alloc w1)) = quiet w w1"
  by (simp_all add: quiet_def)

lemma quiet_close [simp]: "quiet w w1 \<Longrightarrow> quiet w (mx_handle_close h w1)"
  by (auto simp: quiet_def mx_handle_close_def is_channel_write_def)

lemma quiet_signal [simp]: "quiet w w1 \<Longrightarrow> quiet w (mx_object_signal_peer h c s w1)"
  by (auto simp: quiet_def mx_object_signal_peer_def is_channel_write_def)

lemma quiet_emits [simp]:
  "quiet w w1 \<Longrightarrow> quiet w (emit Mx_channel_create w1)"
  "quiet w w1 \<Longrightarrow> quiet w (emit Mx_socket_create w1)"
  "quiet w w1 \<Longrightarrow> quiet w (emit (Dispatcher_add h p) w1)"
  "quiet w w1 \<Longrightarrow> quiet w (emit (Net_socket d t pr) w1)"
  "quiet w w1 \<Longrightarrow> quiet w (emit (Net_ioctl_FIONBIO fd) w1)"
  "quiet w w1 \<Longrightarrow> quiet w (emit (Net_accept fd) w1)"
  by (auto simp: quiet_def is_channel_write_def)

lemma quiet_schedule_rw [simp]: "quiet w w1 \<Longrightarrow> quiet w (schedule_rw en p w1)"
  by (auto simp: quiet_def is_channel_write_def split: option.splits)

lemma create_handles_quiet [simp]:
  "quiet w w1 \<Longrightarrow> quiet w (snd (snd (create_handles en p out w1)))"
  by (simp add: create_handles_def Let_def split_beta)

lemma do_none_quiet: "quiet w (snd (snd (do_none en out w)))"
  by (simp add: do_none_def Let_def split_beta)

lemma do_socket_quiet: "quiet w (snd (snd (do_socket en m out w)))"
  by (simp add: do_socket_def Let_def split_beta split: option.splits sum.splits)

lemma do_accept_quiet:
  "do_accept en p out w = Some res \<Longrightarrow> quiet w (snd (snd res))"
  by (auto simp: do_accept_def Let_def split_beta split: option.splits if_splits)

text \<open>
  Claim C8. For every \<^verbatim>\<open>OPEN\<close> request with a payload length of 0 or above 1024 the
  reply status is \<open>INVALID_ARGS\<close>, and no sub-handler runs: whatever the path, the backend
  and the kernel are, the state is the former one with the reply (no handle attached) and
  the close of the request's channel added to the trace.
\<close>

theorem do_open_bad_length:
  assumes "datalen m < 1 \<or> datalen m > 1024"
  shows "do_open en m p w =
           Some (NO_ERROR,
                 w\<lparr>trace := trace w @ [Mx_channel_write (handle0 m) ERR_INVALID_ARGS [],
                                        Mx_handle_close (handle0 m)]\<rparr>)"
  using assms by (auto simp: do_open_def out0_def Let_def emit_def mx_handle_close_def)

theorem do_open_bad_length_witness:
  "datalen \<lparr>datalen = 1025, data = ''none'', handle0 = 9\<rparr> > 1024 \<and>
   do_open env_ok \<lparr>datalen = 1025, data = ''none'', handle0 = 9\<rparr> 1 world1 =
     Some (NO_ERROR, world1\<lparr>trace := [Mx_channel_write 9 ERR_INVALID_ARGS [], Mx_handle_close 9]\<rparr>)"
proof -
  have a: "datalen \<lparr>datalen = 1025, data = ''none'', handle0 = 9\<rparr> < 1 \<or>
           datalen \<lparr>datalen = 1025, data = ''none'', handle0 = 9\<rparr> > 1024" by simp
  have b: "trace world1 = []" by (simp add: example_defs)
  from do_open_bad_length[OF a, of env_ok 1 world1] b show ?thesis by simp
qed

lemma open_handler_result:
  "\<not> (accept_selected m \<and> ios_tab w p = None) \<Longrightarrow> \<not> Option.is_none (open_handler en m p w)"
  using do_accept_live[of w p _ en out0]
  by (auto simp: open_handler_def accept_selected_def)

lemma open_handler_fault:
  "accept_selected m \<Longrightarrow> ios_tab w p = None \<Longrightarrow> open_handler en m p w = None"
  by (simp add: open_handler_def accept_selected_def do_accept_def)

lemma do_open_handler:
  "do_open en m p w =
     (case open_handler en m p w of
        None \<Rightarrow> None
      | Some (r, (peer_rio_h, peer_data_h, hcount), w1) \<Rightarrow>
          Some (NO_ERROR,
            mx_handle_close (handle0 m)
              (emit (Mx_channel_write (handle0 m) r (take hcount [peer_rio_h, peer_data_h])) w1)))"
  by (simp add: do_open_def open_handler_def Let_def)

lemma open_handler_quiet: "open_handler en m p w = Some res \<Longrightarrow> quiet w (snd (snd res))"
  using do_none_quiet[of w en out0] do_socket_quiet[of w en m out0]
    do_accept_quiet[of en p out0 w res]
  by (auto simp: open_handler_def split: if_splits)

text \<open>
  Claim C10: for every \<^verbatim>\<open>OPEN\<close> request, whether the selected sub-handler succeeds or
  fails, \<^verbatim>\<open>do_open\<close> returns \<open>NO_ERROR\<close>, writes one reply on the request's channel
  and closes that channel. The code does so in every case but one. Every failure that
  \<^verbatim>\<open>do_open\<close> and the sub-handlers detect ends at the label \<^verbatim>\<open>reply\<close>; the calls added
  to the trace are those of the sub-handler, none of which writes to a channel, then one
  reply that carries the sub-handler's status, then the close, and the result of the write
  is never looked at. This holds also for a request that comes with no IOState (a
  \<^verbatim>\<open>NULL\<close> pointer, which \<^verbatim>\<open>handle_request\<close> provides for): \<^verbatim>\<open>do_none\<close> and
  \<^verbatim>\<open>do_socket\<close> allocate their own. The case left out is \<^verbatim>\<open>accept\<close> on such a
  request: \<^verbatim>\<open>do_accept\<close> reads \<^verbatim>\<open>ios->sockfd\<close> without a test, and nothing is
  replied or closed.
\<close>

theorem do_open_reply:
  "(accept_selected m \<and> ios_tab w p = None \<longrightarrow> do_open en m p w = None) \<and>
   (\<not> (accept_selected m \<and> ios_tab w p = None) \<longrightarrow>
      (\<exists>r out1 w1 evs.
           open_handler en m p w = Some (r, out1, w1) \<and>
           do_open en m p w =
             Some (NO_ERROR,
                   w1\<lparr>trace := trace w @ evs @
                        [Mx_channel_write (handle0 m) r (take (snd (snd out1)) [fst out1, fst (snd out1)]),
                         Mx_handle_close (handle0 m)]\<rparr>) \<and>
           trace w1 = trace w @ evs \<and>
           list_all (\<lambda>c. \<not> is_channel_write c) evs))"
proof (intro conjI impI)
  assume "accept_selected m \<and> ios_tab w p = None"
  then show "do_open en m p w = None"
    by (simp add: do_open_handler open_handler_fault)
next
  assume n: "\<not> (accept_selected m \<and> ios_tab w p = None)"
  obtain r out1 w1 where h: "open_handler en m p w = Some (r, out1, w1)"
    using open_handler_result[OF n, of en]
    by (cases "open_handler en m p w") (auto intro: prod_cases3)
  from open_handler_quiet[OF h] obtain evs
    where evs: "trace w1 = trace w @ evs" "list_all (\<lambda>c. \<not> is_channel_write c) evs"
    by (auto simp: quiet_def)
  have "do_open en m p w =
             Some (NO_ERROR,
                   w1\<lparr>trace := trace w @ evs @
                        [Mx_channel_write (handle0 m) r (take (snd (snd out1)) [fst out1, fst (snd out1)]),
                         Mx_handle_close (handle0 m)]\<rparr>)"
    using h evs(1) by (simp add: do_open_handler mx_handle_close_def emit_def split_beta)
  with h evs show "\<exists>r out1 w1 evs.
           open_handler en m p w = Some (r, out1, w1) \<and>
           do_open en m p w =
             Some (NO_ERROR,
                   w1\<lparr>trace := trace w @ evs @
                        [Mx_channel_write (handle0 m) r (take (snd (snd out1)) [fst out1, fst (snd out1)]),
                         Mx_handle_close (handle0 m)]\<rparr>) \<and>
           trace w1 = trace w @ evs \<and>
           list_all (\<lambda>c. \<not> is_channel_write c) evs" by blast
qed

theorem do_open_reply_witness:
  "accept_selected msg_accept \<and> ios_tab world0 0 = None \<and>
   do_open env_ok msg_accept 0 world0 = None \<and>
   \<not> (accept_selected msg_none \<and> ios_tab world0 0 = None) \<and>
   (\<exists>w'. do_open env_ok msg_none 0 world0 = Some (NO_ERROR, w') \<and>
      trace w' = [Mx_channel_create, Dispatcher_add 10 1,
                  Mx_channel_write 9 NO_ERROR [11], Mx_handle_close 9])"
proof -
  have a: "accept_selected msg_accept"
    by (simp add: accept_selected_def MATCH_SUBDIR_def match_subdir_def msg_path_def cstring_def
        msg_accept_def MXRIO_SOCKET_DIR_NONE_def MXRIO_SOCKET_DIR_SOCKET_def
        MXRIO_SOCKET_DIR_ACCEPT_def peek_def)
  have b: "ios_tab world0 0 = None" by (simp add: world0_def)
  have m: "MATCH_SUBDIR (msg_path msg_none) MXRIO_SOCKET_DIR_NONE = Some []"
    by (simp add: MATCH_SUBDIR_def match_subdir_def msg_path_def cstring_def msg_none_def
        MXRIO_SOCKET_DIR_NONE_def peek_def)
  then have c: "\<not> (accept_selected msg_none \<and> ios_tab world0 0 = None)"
    by (simp add: accept_selected_def)
  have h: "\<exists>w1. open_handler env_ok msg_none 0 world0 = Some (NO_ERROR, (11, 0, 1), w1) \<and>
             trace w1 = [Mx_channel_create, Dispatcher_add 10 1]"
    by (simp add: open_handler_def m)
       (simp add: msg_none_def do_none_def create_handles_def iostate_alloc_def out0_def
          Let_def example_defs status_defs MX_HANDLE_INVALID_def upd_ios_def emit_def
          iostate_acquire_def)
  from do_open_reply[of msg_accept world0 0 env_ok] a b
  have x: "do_open env_ok msg_accept 0 world0 = None" by simp
  from do_open_reply[of msg_none world0 0 env_ok] c obtain r out1 w1 evs where
    d: "open_handler env_ok msg_none 0 world0 = Some (r, out1, w1)"
       "do_open env_ok msg_none 0 world0 =
             Some (NO_ERROR,
                   w1\<lparr>trace := trace world0 @ evs @
                        [Mx_channel_write (handle0 msg_none) r (take (snd (snd out1)) [fst out1, fst (snd out1)]),
                         Mx_handle_close (handle0 msg_none)]\<rparr>)"
       "trace w1 = trace world0 @ evs"
    by blast
  from h d(1) have e: "r = NO_ERROR" "out1 = (11, 0, 1)" "trace w1 = [Mx_channel_create, Dispatcher_add 10 1]"
    by auto
  have t: "trace world0 = []" by (simp add: example_defs)
  from d(3) e(3) t have evs: "evs = [Mx_channel_create, Dispatcher_add 10 1]" by simp
  show ?thesis using a b c x d(2) e evs t by (simp add: msg_none_def)
qed

section \<open>Stream read: end of the connection\<close>

lemma get_rwbuf_sel [simp]:
  "trace (snd (get_rwbuf w)) = trace w" "ios_tab (snd (get_rwbuf w)) = ios_tab w"
  "fd_events (snd (get_rwbuf w)) = fd_events w" "wait_net (snd (get_rwbuf w)) = wait_net w"
  "wait_socket (snd (get_rwbuf w)) = wait_socket w" "waitset (snd (get_rwbuf w)) = waitset w"
  by (simp_all add: get_rwbuf_def split: list.splits)

text \<open>
  Claim C5. In every run of \<^verbatim>\<open>do_read_stream\<close> that reads from the backend
  (\<open>rlen \<le> 0\<close>) and where the read returns 0 bytes or fails with an errno other than
  \<open>EWOULDBLOCK\<close>, the half-close marker is written on the data endpoint; the status is
  \<open>NO_ERROR\<close> when that write succeeds or fails with \<open>PEER_CLOSED\<close>, and the write's own
  status when it fails otherwise. Nothing is armed or queued.
\<close>

theorem do_read_stream_closed:
  assumes "ios_tab w p = Some ios" "rlen ios \<le> 0" "net_read_r en = (n, e)"
    and "n = 0 \<or> (n < 0 \<and> e \<noteq> EWOULDBLOCK \<and> e \<noteq> 0)"
  shows "\<exists>w'. do_read_stream en p w =
               Some (if half_close_r en < 0 \<and> half_close_r en \<noteq> ERR_PEER_CLOSED
                     then half_close_r en else NO_ERROR, w') \<and>
              trace w' = trace w @
                [Net_read (sockfd ios) (read_buffer ios w) RWBUF_SIZE,
                 Mx_socket_write (data_h ios) MX_SOCKET_HALF_CLOSE None] \<and>
              fd_events w' = fd_events w \<and> wait_net w' = wait_net w \<and>
              wait_socket w' = wait_socket w"
  using assms
  by (cases "rbuf ios")
     (auto simp: do_read_stream_def connection_closed_def read_buffer_def Let_def split_beta)

theorem do_read_stream_closed_witness:
  "ios_tab world1 1 = Some stream_ios \<and> rlen stream_ios \<le> 0 \<and>
   net_read_r (env_ok\<lparr>net_read_r := (- 1, 104), half_close_r := ERR_BAD_HANDLE\<rparr>) = (- 1, 104) \<and>
   (104::int) \<noteq> EWOULDBLOCK \<and>
   (\<exists>w'. do_read_stream (env_ok\<lparr>net_read_r := (- 1, 104), half_close_r := ERR_BAD_HANDLE\<rparr>) 1 world1
          = Some (ERR_BAD_HANDLE, w') \<and>
        trace w' = [Net_read 5 0 RWBUF_SIZE, Mx_socket_write 7 MX_SOCKET_HALF_CLOSE None])"
proof -
  let ?en = "env_ok\<lparr>net_read_r := (- 1, 104), half_close_r := ERR_BAD_HANDLE\<rparr>"
  have a: "ios_tab world1 1 = Some stream_ios" by (simp add: example_defs)
  have b: "rlen stream_ios \<le> 0" by (simp add: example_defs)
  have c: "net_read_r ?en = (- 1, 104)" by simp
  have d: "(- 1 :: int) = 0 \<or> ((- 1 :: int) < 0 \<and> (104::int) \<noteq> EWOULDBLOCK \<and> (104::int) \<noteq> 0)"
    by (simp add: errno_defs)
  have e: "half_close_r ?en = ERR_BAD_HANDLE" "ERR_BAD_HANDLE < 0" "ERR_BAD_HANDLE \<noteq> ERR_PEER_CLOSED"
    "trace world1 = []" "sockfd stream_ios = 5" "data_h stream_ios = 7"
    "read_buffer stream_ios world1 = 0"
    by (simp_all add: example_defs status_defs read_buffer_def get_rwbuf_def)
  from do_read_stream_closed[OF a b c d] e d a b show ?thesis by auto
qed

section \<open>Interface enumeration: the count of the reply\<close>

lemma get_if_info_loop_last:
  assumes "k < mx" "idx \<le> k" "length infos = mx"
    and "\<forall>i. idx \<le> i \<and> i < k \<longrightarrow> 0 < fst (g i)" "fst (g k) = 0"
  shows "\<exists>infos'. get_if_info_loop g mx sz idx ret infos = (k, 0, infos') \<and>
           length infos' = mx \<and>
           (\<forall>i < mx. infos' ! i = (if idx \<le> i \<and> i \<le> k then copy_if_info sz (snd (g i))
                                   else infos ! i))"
  using assms
proof (induction "k - idx" arbitrary: idx ret infos)
  case 0
  then have eq: "idx = k" by simp
  obtain r1 ifc where g: "g idx = (r1, ifc)" by (cases "g idx")
  with 0 eq have r1: "r1 = 0" by simp
  show ?case
    using 0 eq g r1
    by (subst get_if_info_loop.simps) (auto simp: nth_list_update)
next
  case (Suc d)
  then have lt: "idx < k" by simp
  obtain r1 ifc where g: "g idx = (r1, ifc)" by (cases "g idx")
  with Suc lt have pos: "0 < r1" by (metis fst_conv le_refl)
  let ?infos1 = "infos[idx := copy_if_info sz ifc]"
  have d: "d = k - (idx + 1)" using Suc(2) by simp
  have "\<exists>infos'. get_if_info_loop g mx sz (idx + 1) r1 ?infos1 = (k, 0, infos') \<and>
         length infos' = mx \<and>
         (\<forall>i < mx. infos' ! i = (if idx + 1 \<le> i \<and> i \<le> k then copy_if_info sz (snd (g i))
                                 else ?infos1 ! i))"
    using Suc(3-) lt by (intro Suc(1)[OF d]) auto
  then obtain infos' where
    r: "get_if_info_loop g mx sz (idx + 1) r1 ?infos1 = (k, 0, infos')" "length infos' = mx"
    "\<forall>i < mx. infos' ! i = (if idx + 1 \<le> i \<and> i \<le> k then copy_if_info sz (snd (g i))
                                 else ?infos1 ! i)"
    by blast
  have "get_if_info_loop g mx sz idx ret infos = (k, 0, infos')"
    using Suc(3-) lt pos g r(1) by (subst get_if_info_loop.simps) (simp add: Let_def)
  moreover have "\<forall>i < mx. infos' ! i = (if idx \<le> i \<and> i \<le> k then copy_if_info sz (snd (g i))
                                 else infos ! i)"
  proof (intro allI impI)
    fix i assume i: "i < mx"
    show "infos' ! i = (if idx \<le> i \<and> i \<le> k then copy_if_info sz (snd (g i)) else infos ! i)"
      using r(3) Suc(3-) lt g i by (cases "i = idx") (auto simp: nth_list_update)
  qed
  ultimately show ?case using r(2) by blast
qed

lemma get_if_info_loop_more:
  assumes "idx \<le> mx" "length infos = mx" "\<forall>i. idx \<le> i \<and> i < mx \<longrightarrow> 0 < fst (g i)"
  shows "\<exists>ret' infos'. get_if_info_loop g mx sz idx ret infos = (mx, ret', infos') \<and>
           (idx < mx \<longrightarrow> 0 < ret') \<and> (idx = mx \<longrightarrow> ret' = ret) \<and> length infos' = mx \<and>
           (\<forall>i < mx. infos' ! i = (if idx \<le> i then copy_if_info sz (snd (g i)) else infos ! i))"
  using assms
proof (induction "mx - idx" arbitrary: idx ret infos)
  case 0
  then have eq: "idx = mx" by simp
  show ?case using 0 eq by (subst get_if_info_loop.simps) auto
next
  case (Suc d)
  then have lt: "idx < mx" by simp
  obtain r1 ifc where g: "g idx = (r1, ifc)" by (cases "g idx")
  with Suc lt have pos: "0 < r1" by (metis fst_conv le_refl)
  let ?infos1 = "infos[idx := copy_if_info sz ifc]"
  have d: "d = mx - (idx + 1)" using Suc(2) by simp
  have "\<exists>ret' infos'. get_if_info_loop g mx sz (idx + 1) r1 ?infos1 = (mx, ret', infos') \<and>
         (idx + 1 < mx \<longrightarrow> 0 < ret') \<and> (idx + 1 = mx \<longrightarrow> ret' = r1) \<and> length infos' = mx \<and>
         (\<forall>i < mx. infos' ! i = (if idx + 1 \<le> i then copy_if_info sz (snd (g i)) else ?infos1 ! i))"
    using Suc(3-) lt by (intro Suc(1)[OF d]) auto
  then obtain ret' infos' where
    r: "get_if_info_loop g mx sz (idx + 1) r1 ?infos1 = (mx, ret', infos')"
    "idx + 1 < mx \<longrightarrow> 0 < ret'" "idx + 1 = mx \<longrightarrow> ret' = r1" "length infos' = mx"
    "\<forall>i < mx. infos' ! i = (if idx + 1 \<le> i then copy_if_info sz (snd (g i)) else ?infos1 ! i)"
    by blast
  have "get_if_info_loop g mx sz idx ret infos = (mx, ret', infos')"
    using Suc(3-) lt pos g r(1) by (subst get_if_info_loop.simps) (simp add: Let_def)
  moreover have "\<forall>i < mx. infos' ! i = (if idx \<le> i then copy_if_info sz (snd (g i)) else infos ! i)"
  proof (intro allI impI)
    fix i assume i: "i < mx"
    show "infos' ! i = (if idx \<le> i then copy_if_info sz (snd (g i)) else infos ! i)"
      using r(5) Suc(3-) lt g i by (cases "i = idx") (auto simp: nth_list_update)
  qed
  moreover have "0 < ret'" using r(2,3) pos lt by (cases "idx + 1 = mx") auto
  ultimately show ?case using r(4) lt by auto
qed

text \<open>
  Claim C4: when the backend reports exactly \<^verbatim>\<open>NETC_IF_INFO_MAX\<close> interfaces, the
  reply holds that many entries and \<open>n_info\<close> is \<^verbatim>\<open>NETC_IF_INFO_MAX\<close>. The backend
  marks its last interface by returning 0 ("this is the last if"). With exactly
  \<open>mx\<close> interfaces the loop copies all \<open>mx\<close> entries and leaves through that
  \<^verbatim>\<open>break\<close>, before the index is incremented: \<open>n_info\<close> is \<open>mx - 1\<close>, one less than
  the number of entries copied. The lemma after the theorem is the sibling path: a backend
  that returns a positive value for every index below \<open>mx\<close> gets \<open>n_info = mx\<close>.
\<close>

theorem get_if_info_last_not_counted:
  assumes "0 < mx" "\<forall>i. i < mx - 1 \<longrightarrow> 0 < fst (g i)" "fst (g (mx - 1)) = 0"
  shows "\<exists>infos. do_ioctl_GET_IF_INFO g errno1 mx sz = (NO_ERROR, Some \<lparr>n_info = mx - 1, info = infos\<rparr>) \<and>
           length infos = mx \<and> (\<forall>i < mx. infos ! i = copy_if_info sz (snd (g i)))"
proof -
  have "\<exists>infos'. get_if_info_loop g mx sz 0 (- 1) (replicate mx zero_if_info) = (mx - 1, 0, infos') \<and>
           length infos' = mx \<and>
           (\<forall>i < mx. infos' ! i = (if 0 \<le> i \<and> i \<le> mx - 1 then copy_if_info sz (snd (g i))
                                   else replicate mx zero_if_info ! i))"
    using assms by (intro get_if_info_loop_last) auto
  then obtain infos' where
    r: "get_if_info_loop g mx sz 0 (- 1) (replicate mx zero_if_info) = (mx - 1, 0, infos')"
    "length infos' = mx"
    "\<forall>i < mx. infos' ! i = (if 0 \<le> i \<and> i \<le> mx - 1 then copy_if_info sz (snd (g i))
                                   else replicate mx zero_if_info ! i)"
    by blast
  from r(3) have "\<forall>i < mx. infos' ! i = copy_if_info sz (snd (g i))" by auto
  with r(1,2) show ?thesis by (simp add: do_ioctl_GET_IF_INFO_def)
qed

lemma get_if_info_all_counted:
  assumes "\<forall>i. i < mx \<longrightarrow> 0 < fst (g i)" "0 < mx"
  shows "\<exists>infos. do_ioctl_GET_IF_INFO g errno1 mx sz = (NO_ERROR, Some \<lparr>n_info = mx, info = infos\<rparr>) \<and>
           length infos = mx \<and> (\<forall>i < mx. infos ! i = copy_if_info sz (snd (g i)))"
proof -
  have "\<exists>ret' infos'. get_if_info_loop g mx sz 0 (- 1) (replicate mx zero_if_info) = (mx, ret', infos') \<and>
           (0 < mx \<longrightarrow> 0 < ret') \<and> (0 = mx \<longrightarrow> ret' = - 1) \<and> length infos' = mx \<and>
           (\<forall>i < mx. infos' ! i = (if 0 \<le> i then copy_if_info sz (snd (g i))
                                   else replicate mx zero_if_info ! i))"
    using assms by (intro get_if_info_loop_more) auto
  then obtain ret' infos' where
    r: "get_if_info_loop g mx sz 0 (- 1) (replicate mx zero_if_info) = (mx, ret', infos')"
    "0 < mx \<longrightarrow> 0 < ret'" "length infos' = mx"
    "\<forall>i < mx. infos' ! i = (if 0 \<le> i then copy_if_info sz (snd (g i))
                                   else replicate mx zero_if_info ! i)"
    by blast
  from r(4) have "\<forall>i < mx. infos' ! i = copy_if_info sz (snd (g i))" by auto
  with r(1,2,3) assms(2) show ?thesis by (simp add: do_ioctl_GET_IF_INFO_def)
qed

theorem get_if_info_last_not_counted_witness:
  "(0::nat) < 2 \<and> fst (two_interfaces 0) = 1 \<and> fst (two_interfaces (2 - 1)) = 0 \<and>
   (\<exists>infos. do_ioctl_GET_IF_INFO two_interfaces 0 2 16 =
              (NO_ERROR, Some \<lparr>n_info = 1, info = infos\<rparr>) \<and>
            length infos = 2 \<and>
            infos ! 0 = copy_if_info 16 (zero_if_info\<lparr>if_index := 0\<rparr>) \<and>
            infos ! 1 = copy_if_info 16 (zero_if_info\<lparr>if_index := 1\<rparr>))"
proof -
  have a: "(0::nat) < 2" by simp
  have b: "\<forall>i. i < 2 - 1 \<longrightarrow> 0 < fst (two_interfaces i)" by (simp add: two_interfaces_def)
  have c: "fst (two_interfaces (2 - 1)) = 0" by (simp add: two_interfaces_def)
  have d: "fst (two_interfaces 0) = 1" by (simp add: two_interfaces_def)
  from get_if_info_last_not_counted[OF a b c, of 0 16] obtain infos where
    r: "do_ioctl_GET_IF_INFO two_interfaces 0 2 16 = (NO_ERROR, Some \<lparr>n_info = 2 - 1, info = infos\<rparr>)"
       "length infos = 2" "\<forall>i < 2. infos ! i = copy_if_info 16 (snd (two_interfaces i))"
    by blast
  from r(3) have "infos ! 0 = copy_if_info 16 (snd (two_interfaces 0))"
    "infos ! 1 = copy_if_info 16 (snd (two_interfaces 1))" by simp_all
  with r(1,2) a c d show ?thesis by (auto simp: two_interfaces_def)
qed

end
